theory Spec2Isabelle
  imports Main "HOL-Library.Sublist"
begin

section \<open>Python values, errors and strings\<close>

text \<open>
  The exceptions the modelled code can raise. None of the modelled functions of
  \<^verbatim>\<open>glucosedatabot.py\<close>, \<^verbatim>\<open>utilities.py\<close> and \<^verbatim>\<open>main.py\<close> contains a
  \<^verbatim>\<open>try\<close>, so a raise inside a handler leaves \<^verbatim>\<open>process_message\<close> and then
  \<^verbatim>\<open>main\<close>.
\<close>

datatype py_error =
    APIError
  | JSONDecodeError
  | AttributeError
  | KeyError
  | TypeError
  | OSError
  | RenderError

text \<open>
  What \<^verbatim>\<open>json.loads\<close> can return. Numbers are restricted to integers. Python's
  \<^verbatim>\<open>None\<close> is \<open>JNull\<close>.
\<close>

datatype json =
    JNull
  | JBool bool
  | JInt int
  | JStr string
  | JList "json list"
  | JObject "(string \<times> json) list"

text \<open>Python truthiness, as used by \<^verbatim>\<open>or\<close>, \<^verbatim>\<open>if x:\<close> and \<^verbatim>\<open>not x\<close>.\<close>

fun truthy :: "json \<Rightarrow> bool" where
  "truthy JNull = False"
| "truthy (JBool b) = b"
| "truthy (JInt i) = (i \<noteq> 0)"
| "truthy (JStr s) = (s \<noteq> [])"
| "truthy (JList xs) = (xs \<noteq> [])"
| "truthy (JObject kv) = (kv \<noteq> [])"

text \<open>\<^verbatim>\<open>a or b\<close>: the first operand when it is truthy, otherwise the second.\<close>

definition py_or :: "json \<Rightarrow> json \<Rightarrow> json" where
  "py_or a b = (if truthy a then a else b)"

text \<open>\<^verbatim>\<open>d.get(k)\<close> on a parsed JSON object: \<^verbatim>\<open>None\<close> for a missing key.\<close>

definition dict_get :: "(string \<times> json) list \<Rightarrow> string \<Rightarrow> json" where
  "dict_get kv k = (case map_of kv k of None \<Rightarrow> JNull | Some v \<Rightarrow> v)"

text \<open>\<^verbatim>\<open>self.context.get(k)\<close>: \<^verbatim>\<open>None\<close> for an absent key.\<close>

definition ctx_get :: "json option \<Rightarrow> json" where
  "ctx_get v = (case v of None \<Rightarrow> JNull | Some x \<Rightarrow> x)"

abbreviation NL :: char where
  "NL \<equiv> CHR 0x0A"

text \<open>\<^verbatim>\<open>str(n)\<close> for a natural number: its decimal digits.\<close>

fun string_of_nat :: "nat \<Rightarrow> string" where
  "string_of_nat n =
     (if n < 10 then [''0123456789'' ! n]
      else string_of_nat (n div 10) @ [''0123456789'' ! (n mod 10)])"

definition string_of_int :: "int \<Rightarrow> string" where
  "string_of_int i =
     (if i < 0 then CHR ''-'' # string_of_nat (nat (- i)) else string_of_nat (nat i))"

text \<open>
  \<^verbatim>\<open>str(v)\<close> as an f-string or \<^verbatim>\<open>str.format\<close> applies it. The rendering of
  lists and objects (Python's \<^verbatim>\<open>repr\<close> of nested values) is the parameter \<open>rp\<close>.
\<close>

fun py_str :: "(json \<Rightarrow> string) \<Rightarrow> json \<Rightarrow> string" where
  "py_str rp (JStr s) = s"
| "py_str rp JNull = ''None''"
| "py_str rp (JBool b) = (if b then ''True'' else ''False'')"
| "py_str rp (JInt i) = string_of_int i"
| "py_str rp v = rp v"

text \<open>\<^verbatim>\<open>str.lower()\<close> on the ASCII letters; every other character is kept.\<close>

definition lower_char :: "char \<Rightarrow> char" where
  "lower_char c =
     (case map_of (zip ''ABCDEFGHIJKLMNOPQRSTUVWXYZ'' ''abcdefghijklmnopqrstuvwxyz'') c of
        None \<Rightarrow> c
      | Some l \<Rightarrow> l)"

definition lower :: "string \<Rightarrow> string" where
  "lower s = map lower_char s"

text \<open>\<^verbatim>\<open>", ".join(xs)\<close>\<close>

fun join_comma :: "string list \<Rightarrow> string" where
  "join_comma [] = []"
| "join_comma [x] = x"
| "join_comma (x # y # ys) = x @ '', '' @ join_comma (y # ys)"

text \<open>
  \<^verbatim>\<open>xs[-n:]\<close> for \<open>n \<ge> 0\<close>: the last \<open>n\<close> entries, and the whole list when
  \<open>n = 0\<close> (\<^verbatim>\<open>xs[-0:]\<close> is \<^verbatim>\<open>xs[0:]\<close>).
\<close>

definition slice_last :: "nat \<Rightarrow> 'a list \<Rightarrow> 'a list" where
  "slice_last n xs = (if n = 0 then xs else drop (length xs - n) xs)"

section \<open>Prompt templates (prompts.py)\<close>

datatype sys_prompt =
    EXTRACT_PATIENT_AND_FORMAT_PROMPT
  | ANALYZE_USER_INTENTION_PROMPT
  | GLUCOSE_DATA_ANALYSIS_PROMPT

definition MISSING_PATIENT_PROMPT :: string where
  "MISSING_PATIENT_PROMPT =
     ''- Please specify which patient's data you'd like to see (e.g., patient 032)''"

definition MISSING_FORMAT_PROMPT :: string where
  "MISSING_FORMAT_PROMPT =
     ''- Please specify if you want to see the raw data or a visual figure''"

text \<open>\<^verbatim>\<open>REQUEST_CLARIFICATION_PROMPT.format(missing_patient_prompt=mp, missing_format_prompt=mf)\<close>\<close>

definition REQUEST_CLARIFICATION_PROMPT :: "string \<Rightarrow> string \<Rightarrow> string" where
  "REQUEST_CLARIFICATION_PROMPT mp mf =
     [NL] @ ''To help you better, I need a bit more information:'' @ [NL]
     @ mp @ [NL]
     @ mf @ [NL, NL]
     @ ''Please provide the missing details so I can assist you properly.'' @ [NL]"

text \<open>\<^verbatim>\<open>PATIENT_NOT_FOUND_PROMPT.format(patient_id=p, available_ids=a)\<close>\<close>

definition PATIENT_NOT_FOUND_PROMPT :: "string \<Rightarrow> string \<Rightarrow> string" where
  "PATIENT_NOT_FOUND_PROMPT p a =
     [NL] @ ''I'm sorry, but I couldn't find data for patient '' @ p @ ''. '' @ [NL]
     @ ''Available patient IDs are: '' @ a @ ''.'' @ [NL]
     @ ''Please specify a valid patient ID.'' @ [NL]"

section \<open>The session: state, context, history and collaborators\<close>

datatype BotState = INITIAL | NEEDS_CLARIFICATION | DATA_RETRIEVED | ANALYZING_DATA

record turn =
  role :: string
  content :: string

text \<open>
  The dictionary \<^verbatim>\<open>self.context\<close>. The code reads and writes six fixed keys; a field
  is \<open>None\<close> when the key is absent. \<open>patient_data\<close> can be present with the value
  \<^verbatim>\<open>None\<close> (a patient folder without a CSV file), which is \<open>Some None\<close>.
\<close>

record 'd dialogue_context =
  partial_patient_id :: "json option"
  partial_format :: "json option"
  missing_info :: "string list option"
  patient_id :: "json option"
  format :: "json option"
  patient_data :: "'d option option"

text \<open>\<^verbatim>\<open>{}\<close> and the result of \<^verbatim>\<open>self.context.clear()\<close>.\<close>

definition empty_context :: "'d dialogue_context" where
  "empty_context =
     \<lparr>partial_patient_id = None, partial_format = None, missing_info = None,
      patient_id = None, format = None, patient_data = None\<rparr>"

text \<open>
  The bot object. \<open>client_calls\<close> stands for \<^verbatim>\<open>self.client\<close>: the number of
  completions requested from it so far, which indexes the external model's answers.
\<close>

record 'd bot =
  client_calls :: nat
  patient_ids :: "string list"
  state :: BotState
  bot_context :: "'d dialogue_context"
  conversation_history :: "turn list"
  max_history_length :: nat

text \<open>
  The external collaborators, none of which is code of the repository:
  \<^item> \<open>chat_completion n sp up js\<close>: the content of the \<open>n\<close>-th completion of the
    session, asked with system prompt \<open>sp\<close> and user prompt \<open>up\<close>, in JSON mode when
    \<open>js\<close>; \<open>None\<close> when the request raises;
  \<^item> \<open>json_loads\<close>: \<open>None\<close> when the content is not valid JSON;
  \<^item> \<open>py_repr\<close>: Python's rendering of lists and objects;
  \<^item> \<open>get_patient_data\<close>: \<^verbatim>\<open>data_utils.get_patient_data(data_path, patient_id)\<close>,
    \<open>Inr None\<close> when the folder holds no CSV file;
  \<^item> \<open>df_empty\<close>: \<^verbatim>\<open>DataFrame.empty\<close>;
  \<^item> \<open>stats_summary\<close>: the statistics block of \<^verbatim>\<open>_analyze_glucose_data\<close>
    (pandas min, max, mean, std and the float formatting);
  \<^item> \<open>render_plot\<close>, \<open>render_popup\<close>: the matplotlib and HTML parts of
    \<^verbatim>\<open>generate_glucose_plot\<close> and \<^verbatim>\<open>display_raw_data_popup\<close>, \<open>Some e\<close> when they raise;
  \<^item> \<open>write_pdf\<close>: the FPDF part of \<^verbatim>\<open>generate_conversation_pdf\<close>; it returns the
    time stamp that goes into the file name.
\<close>

record 'd env =
  chat_completion :: "nat \<Rightarrow> sys_prompt \<Rightarrow> string \<Rightarrow> bool \<Rightarrow> string option"
  json_loads :: "string \<Rightarrow> json option"
  py_repr :: "json \<Rightarrow> string"
  get_patient_data :: "string \<Rightarrow> py_error + 'd option"
  df_empty :: "'d \<Rightarrow> bool"
  stats_summary :: "'d \<Rightarrow> py_error + string"
  render_plot :: "'d \<Rightarrow> string \<Rightarrow> py_error option"
  render_popup :: "'d \<Rightarrow> string \<Rightarrow> py_error option"
  write_pdf :: "turn list \<Rightarrow> json \<Rightarrow> py_error + string"

section \<open>utilities.py\<close>

text \<open>
  \<^verbatim>\<open>openai_async_wrapper(..., output="json")\<close>: one completion request, then
  \<^verbatim>\<open>json.loads\<close> of its content. Nothing is caught.
\<close>

definition openai_async_wrapper_json ::
  "'d env \<Rightarrow> 'd bot \<Rightarrow> sys_prompt \<Rightarrow> string \<Rightarrow> (py_error + json) \<times> 'd bot" where
  "openai_async_wrapper_json e b sp up =
     (let b' = b\<lparr>client_calls := Suc (client_calls b)\<rparr> in
      case chat_completion e (client_calls b) sp up True of
        None \<Rightarrow> (Inl APIError, b')
      | Some c \<Rightarrow>
          (case json_loads e c of
             None \<Rightarrow> (Inl JSONDecodeError, b')
           | Some v \<Rightarrow> (Inr v, b')))"

text \<open>\<^verbatim>\<open>openai_async_wrapper(..., output="text")\<close>: the content as it is.\<close>

definition openai_async_wrapper_text ::
  "'d env \<Rightarrow> 'd bot \<Rightarrow> sys_prompt \<Rightarrow> string \<Rightarrow> (py_error + string) \<times> 'd bot" where
  "openai_async_wrapper_text e b sp up =
     (let b' = b\<lparr>client_calls := Suc (client_calls b)\<rparr> in
      case chat_completion e (client_calls b) sp up False of
        None \<Rightarrow> (Inl APIError, b')
      | Some c \<Rightarrow> (Inr c, b'))"

section \<open>data_utils.py\<close>

definition generate_glucose_plot ::
  "'d env \<Rightarrow> 'd option \<Rightarrow> string \<Rightarrow> py_error + string" where
  "generate_glucose_plot e data pid =
     (case data of
        None \<Rightarrow> Inr ''No data available for this patient.''
      | Some d \<Rightarrow>
          (case render_plot e d pid of
             Some err \<Rightarrow> Inl err
           | None \<Rightarrow>
               Inr (''Generated enhanced plot for patient '' @ pid
                    @ ''. Opening the plot in your default image viewer and saved as ''
                    @ ''patient_'' @ pid @ ''_glucose.png'')))"

definition display_raw_data_popup ::
  "'d env \<Rightarrow> 'd option \<Rightarrow> string \<Rightarrow> py_error + string" where
  "display_raw_data_popup e data pid =
     (case data of
        None \<Rightarrow> Inr ''No data available for this patient.''
      | Some d \<Rightarrow>
          (case render_popup e d pid of
             Some err \<Rightarrow> Inl err
           | None \<Rightarrow> Inr (''Displaying raw data for patient '' @ pid @ '' in your browser.'')))"

definition generate_conversation_pdf ::
  "'d env \<Rightarrow> turn list \<Rightarrow> json \<Rightarrow> py_error + string" where
  "generate_conversation_pdf e history pid =
     (if history = [] then Inr ''No conversation history to export.''
      else
        (case write_pdf e history pid of
           Inl err \<Rightarrow> Inl err
         | Inr stamp \<Rightarrow>
             (let filename =
                    ''conversation_log''
                    @ (if truthy pid then ''_patient_'' @ py_str (py_repr e) pid else [])
                    @ ''_'' @ stamp @ ''.pdf''
              in Inr (''Conversation exported to '' @ filename
                      @ '' and opened in your default PDF viewer.''))))"

section \<open>glucosedatabot.py\<close>

text \<open>\<^verbatim>\<open>GlucoseDataBot.__init__\<close>, with the catalog that \<^verbatim>\<open>get_available_patient_ids\<close> found.\<close>

definition init_bot :: "string list \<Rightarrow> 'd bot" where
  "init_bot ids =
     \<lparr>client_calls = 0, patient_ids = ids, state = INITIAL, bot_context = empty_context,
      conversation_history = [], max_history_length = 6\<rparr>"

definition update_history :: "'d bot \<Rightarrow> string \<Rightarrow> string \<Rightarrow> 'd bot" where
  "update_history b r c =
     (let h = conversation_history b @ [\<lparr>role = r, content = c\<rparr>] in
      b\<lparr>conversation_history :=
           (if length h > max_history_length b then slice_last (max_history_length b) h else h)\<rparr>)"

definition format_turn :: "turn \<Rightarrow> string" where
  "format_turn msg =
     (if role msg = ''user'' then ''User'' else ''Bot'') @ '': '' @ content msg @ [NL]"

definition get_conversation_context :: "'d bot \<Rightarrow> string" where
  "get_conversation_context b =
     (if conversation_history b = [] then []
      else [NL, NL] @ ''Recent conversation:'' @ [NL]
           @ concat (map format_turn (conversation_history b)))"

text \<open>
  The test that opens all four handlers:
  \<^verbatim>\<open>any(keyword in message.lower() for keyword in ["pdf", "export", ...])\<close>.
\<close>

definition export_keywords :: "string list" where
  "export_keywords = [''pdf'', ''export'', ''save conversation'', ''export conversation'']"

definition wants_export :: "string \<Rightarrow> bool" where
  "wants_export message = list_ex (\<lambda>keyword. sublist keyword (lower message)) export_keywords"

definition export_conversation_as_pdf :: "'d env \<Rightarrow> 'd bot \<Rightarrow> json \<Rightarrow> py_error + string" where
  "export_conversation_as_pdf e b pid = generate_conversation_pdf e (conversation_history b) pid"

definition extract_patient_and_format ::
  "'d env \<Rightarrow> 'd bot \<Rightarrow> string \<Rightarrow> (py_error + json) \<times> 'd bot" where
  "extract_patient_and_format e b message =
     openai_async_wrapper_json e b EXTRACT_PATIENT_AND_FORMAT_PROMPT
       (get_conversation_context b @ [NL] @ ''Current query: '' @ message)"

text \<open>The source builds two more context strings here and leaves them unused.\<close>

definition analyze_intention ::
  "'d env \<Rightarrow> 'd bot \<Rightarrow> string \<Rightarrow> (py_error + json) \<times> 'd bot" where
  "analyze_intention e b message =
     openai_async_wrapper_json e b ANALYZE_USER_INTENTION_PROMPT (''User message: '' @ message)"

definition analyze_glucose_data ::
  "'d env \<Rightarrow> 'd bot \<Rightarrow> string \<Rightarrow> json \<Rightarrow> 'd \<Rightarrow> (py_error + string) \<times> 'd bot" where
  "analyze_glucose_data e b message pid d =
     (case stats_summary e d of
        Inl err \<Rightarrow> (Inl err, b)
      | Inr summary \<Rightarrow>
          openai_async_wrapper_text e b GLUCOSE_DATA_ANALYSIS_PROMPT
            (''Data for patient '' @ py_str (py_repr e) pid @ '':'' @ [NL] @ summary @ [NL]
             @ get_conversation_context b @ [NL] @ ''Current query: '' @ message))"

definition create_clarification_message :: "string list \<Rightarrow> string" where
  "create_clarification_message missing =
     REQUEST_CLARIFICATION_PROMPT
       (if ''patient_id'' \<in> set missing then MISSING_PATIENT_PROMPT else [])
       (if ''format'' \<in> set missing then MISSING_FORMAT_PROMPT else [])"

definition another_id_hint :: string where
  "another_id_hint =
     [NL, NL] @ ''Please provide another patient ID from the list above. For example: ''
     @ [CHR 0x27] @ ''Show me data for patient 015'' @ [CHR 0x27]"

definition overflow_note :: "nat \<Rightarrow> string" where
  "overflow_note n =
     [NL, NL] @ ''Note: I've shown only the first 10 patient IDs. There are ''
     @ string_of_nat n @ '' patients available in total.''"

definition create_patient_not_found_message :: "'d env \<Rightarrow> 'd bot \<Rightarrow> json \<Rightarrow> string" where
  "create_patient_not_found_message e b pid =
     PATIENT_NOT_FOUND_PROMPT (py_str (py_repr e) pid) (join_comma (take 10 (patient_ids b)))
     @ another_id_hint
     @ (if length (patient_ids b) > 10 then overflow_note (length (patient_ids b)) else [])"

text \<open>
  \<^verbatim>\<open>patient_id not in self.patient_ids\<close>: the catalog holds strings, so only a string
  can be a member.
\<close>

definition catalog_lookup :: "json \<Rightarrow> string list \<Rightarrow> string option" where
  "catalog_lookup pid ids =
     (case pid of JStr s \<Rightarrow> (if s \<in> set ids then Some s else None) | _ \<Rightarrow> None)"

definition follow_up_offer :: string where
  "follow_up_offer =
     [NL, NL] @ ''I can help you analyze this data further, or I can retrieve data for another patient. What would you like to do?''"

definition handle_initial_message ::
  "'d env \<Rightarrow> 'd bot \<Rightarrow> string \<Rightarrow> (py_error + string) \<times> 'd bot" where
  "handle_initial_message e b message =
     (if wants_export message then
        (export_conversation_as_pdf e b (ctx_get (patient_id (bot_context b))), b)
      else
        (case extract_patient_and_format e b message of
           (Inl err, b1) \<Rightarrow> (Inl err, b1)
         | (Inr query_info, b1) \<Rightarrow>
             (case query_info of
                JObject kv \<Rightarrow>
                  (let pid = py_or (dict_get kv ''patient_id'')
                                   (ctx_get (partial_patient_id (bot_context b1)));
                       fmt = py_or (dict_get kv ''format'')
                                   (ctx_get (partial_format (bot_context b1)));
                       c1 = (if truthy pid then (bot_context b1)\<lparr>partial_patient_id := Some pid\<rparr>
                             else bot_context b1);
                       c2 = (if truthy fmt then c1\<lparr>partial_format := Some fmt\<rparr> else c1);
                       missing = (if \<not> truthy pid then [''patient_id''] else [])
                                 @ (if \<not> truthy fmt then [''format''] else [])
                   in if missing \<noteq> [] then
                        (Inr (create_clarification_message missing),
                         b1\<lparr>bot_context := c2\<lparr>missing_info := Some missing\<rparr>,
                            state := NEEDS_CLARIFICATION\<rparr>)
                      else
                        (case catalog_lookup pid (patient_ids b1) of
                           None \<Rightarrow>
                             (Inr (create_patient_not_found_message e b1 pid),
                              b1\<lparr>bot_context := c2\<rparr>)
                         | Some p \<Rightarrow>
                             (case get_patient_data e p of
                                Inl err \<Rightarrow> (Inl err, b1\<lparr>bot_context := c2\<rparr>)
                              | Inr data \<Rightarrow>
                                  (let c3 = c2\<lparr>partial_patient_id := None,
                                               partial_format := None,
                                               patient_id := Some pid,
                                               format := Some fmt,
                                               patient_data := Some data\<rparr>;
                                       b2 = b1\<lparr>bot_context := c3, state := DATA_RETRIEVED\<rparr>;
                                       result = (if fmt = JStr ''figure''
                                                 then generate_glucose_plot e data p
                                                 else display_raw_data_popup e data p)
                                   in case result of
                                        Inl err \<Rightarrow> (Inl err, b2)
                                      | Inr r \<Rightarrow> (Inr (r @ follow_up_offer), b2)))))
              | _ \<Rightarrow> (Inl AttributeError, b1))))"

definition complete_query :: "'d env \<Rightarrow> json \<Rightarrow> json \<Rightarrow> string" where
  "complete_query e fmt pid =
     ''Get '' @ py_str (py_repr e) fmt @ '' data for patient '' @ py_str (py_repr e) pid"

definition handle_clarification ::
  "'d env \<Rightarrow> 'd bot \<Rightarrow> string \<Rightarrow> (py_error + string) \<times> 'd bot" where
  "handle_clarification e b message =
     (if wants_export message then
        (export_conversation_as_pdf e b (ctx_get (patient_id (bot_context b))), b)
      else
        (case extract_patient_and_format e b message of
           (Inl err, b1) \<Rightarrow> (Inl err, b1)
         | (Inr query_info, b1) \<Rightarrow>
             (case query_info of
                JObject kv \<Rightarrow>
                  (let missing = (case missing_info (bot_context b1) of
                                    None \<Rightarrow> [] | Some m \<Rightarrow> m);
                       pid = py_or (dict_get kv ''patient_id'')
                                   (ctx_get (partial_patient_id (bot_context b1)));
                       fmt = py_or (dict_get kv ''format'')
                                   (ctx_get (partial_format (bot_context b1)));
                       c1 = (if truthy pid then (bot_context b1)\<lparr>partial_patient_id := Some pid\<rparr>
                             else bot_context b1);
                       c2 = (if truthy fmt then c1\<lparr>partial_format := Some fmt\<rparr> else c1);
                       still_missing =
                         (if ''patient_id'' \<in> set missing \<and> \<not> truthy pid
                          then [''patient_id''] else [])
                         @ (if ''format'' \<in> set missing \<and> \<not> truthy fmt
                            then [''format''] else [])
                   in if still_missing \<noteq> [] then
                        (Inr (create_clarification_message still_missing),
                         b1\<lparr>bot_context := c2\<lparr>missing_info := Some still_missing\<rparr>\<rparr>)
                      else
                        handle_initial_message e
                          (b1\<lparr>bot_context := c2, state := INITIAL\<rparr>)
                          (complete_query e fmt pid))
              | _ \<Rightarrow> (Inl AttributeError, b1))))"

text \<open>\<^verbatim>\<open>v[k]\<close> for a string key: only an object can be subscripted with it.\<close>

definition py_subscript :: "json \<Rightarrow> string \<Rightarrow> py_error + json" where
  "py_subscript v k =
     (case v of
        JObject kv \<Rightarrow> (case map_of kv k of None \<Rightarrow> Inl KeyError | Some x \<Rightarrow> Inr x)
      | _ \<Rightarrow> Inl TypeError)"

definition no_data_reply :: string where
  "no_data_reply =
     ''I don't have any patient data to analyze. Please specify which patient's data you'd like to see.''"

definition handle_analysis ::
  "'d env \<Rightarrow> 'd bot \<Rightarrow> string \<Rightarrow> (py_error + string) \<times> 'd bot" where
  "handle_analysis e b message =
     (if wants_export message then
        (export_conversation_as_pdf e b (ctx_get (patient_id (bot_context b))), b)
      else
        (let pid = ctx_get (patient_id (bot_context b));
             no_data = (Inr no_data_reply, b\<lparr>state := INITIAL\<rparr>)
         in case patient_data (bot_context b) of
              None \<Rightarrow> no_data
            | Some None \<Rightarrow> no_data
            | Some (Some d) \<Rightarrow>
                (if df_empty e d \<or> \<not> truthy pid then no_data
                 else
                   (case analyze_glucose_data e b message pid d of
                      (Inl err, b1) \<Rightarrow> (Inl err, b1)
                    | (Inr analysis, b1) \<Rightarrow> (Inr analysis, b1\<lparr>state := DATA_RETRIEVED\<rparr>)))))"

definition unclear_reply :: string where
  "unclear_reply =
     ''I'm not sure what you'd like to do. Would you like to analyze this patient's data further, or retrieve data for a different patient?''"

definition handle_data_retrieved ::
  "'d env \<Rightarrow> 'd bot \<Rightarrow> string \<Rightarrow> (py_error + string) \<times> 'd bot" where
  "handle_data_retrieved e b message =
     (if wants_export message then
        (export_conversation_as_pdf e b (ctx_get (patient_id (bot_context b))), b)
      else
        (case analyze_intention e b message of
           (Inl err, b1) \<Rightarrow> (Inl err, b1)
         | (Inr intention, b1) \<Rightarrow>
             (case py_subscript intention ''intention'' of
                Inl err \<Rightarrow> (Inl err, b1)
              | Inr v \<Rightarrow>
                  (if v = JStr ''analyze_current'' then
                     handle_analysis e (b1\<lparr>state := ANALYZING_DATA\<rparr>) message
                   else if v = JStr ''retrieve_new'' then
                     (case extract_patient_and_format e
                             (b1\<lparr>state := INITIAL, bot_context := empty_context\<rparr>) message of
                        (Inl err, b2) \<Rightarrow> (Inl err, b2)
                      | (Inr query_info, b2) \<Rightarrow>
                          (case query_info of
                             JObject kv \<Rightarrow>
                               (let c1 = (if truthy (dict_get kv ''patient_id'')
                                          then (bot_context b2)
                                                 \<lparr>partial_patient_id := Some (dict_get kv ''patient_id'')\<rparr>
                                          else bot_context b2);
                                    c2 = (if truthy (dict_get kv ''format'')
                                          then c1\<lparr>partial_format := Some (dict_get kv ''format'')\<rparr>
                                          else c1)
                                in handle_initial_message e (b2\<lparr>bot_context := c2\<rparr>) message)
                           | _ \<Rightarrow> (Inl AttributeError, b2)))
                   else (Inr unclear_reply, b1)))))"

text \<open>
  \<^verbatim>\<open>process_message\<close>. The source's last \<^verbatim>\<open>else\<close> branch (an unknown state) has no
  counterpart: the enumeration has four members. When the handler raises, the reply is
  never appended to the history.
\<close>

definition process_message ::
  "'d env \<Rightarrow> 'd bot \<Rightarrow> string \<Rightarrow> (py_error + string) \<times> 'd bot" where
  "process_message e b user_message =
     (let b0 = update_history b ''user'' user_message in
      case (case state b0 of
              INITIAL \<Rightarrow> handle_initial_message e b0 user_message
            | NEEDS_CLARIFICATION \<Rightarrow> handle_clarification e b0 user_message
            | DATA_RETRIEVED \<Rightarrow> handle_data_retrieved e b0 user_message
            | ANALYZING_DATA \<Rightarrow> handle_analysis e b0 user_message) of
        (Inl err, b1) \<Rightarrow> (Inl err, b1)
      | (Inr response, b1) \<Rightarrow> (Inr response, update_history b1 ''bot'' response))"

section \<open>main.py\<close>

text \<open>
  How a session ends on a given list of input lines: the user quit, an exception left
  \<^verbatim>\<open>main\<close>, or every line was answered and the loop is back at \<^verbatim>\<open>input\<close>.
\<close>

datatype outcome = Goodbye | Crashed py_error | AwaitingInput

text \<open>
  The read loop of \<^verbatim>\<open>main\<close> on the lines typed. It returns the turns of the
  session in order (each processed line, and the reply printed for it when there was one),
  how the session ended, and the bot.
\<close>

fun main_loop :: "'d env \<Rightarrow> 'd bot \<Rightarrow> string list \<Rightarrow> turn list \<times> outcome \<times> 'd bot" where
  "main_loop e b [] = ([], AwaitingInput, b)"
| "main_loop e b (user_input # rest) =
     (if lower user_input \<in> set [''exit'', ''quit''] then ([], Goodbye, b)
      else
        (case process_message e b user_input of
           (Inl err, b1) \<Rightarrow> ([\<lparr>role = ''user'', content = user_input\<rparr>], Crashed err, b1)
         | (Inr response, b1) \<Rightarrow>
             (case main_loop e b1 rest of
                (turns, out, b2) \<Rightarrow>
                  (\<lparr>role = ''user'', content = user_input\<rparr>
                   # \<lparr>role = ''bot'', content = response\<rparr> # turns, out, b2))))"

section \<open>Predicates of the statements\<close>

text \<open>
  What \<^verbatim>\<open>_handle_initial_message\<close> establishes when it asks for clarification, and
  what \<^verbatim>\<open>_handle_clarification\<close> relies on: the bot is in NEEDS_CLARIFICATION, a
  missing list is recorded, and every slot that is not on the list has a non-empty partial
  value.
\<close>

definition awaiting_slots :: "'d bot \<Rightarrow> bool" where
  "awaiting_slots b \<longleftrightarrow>
     state b = NEEDS_CLARIFICATION \<and>
     (case missing_info (bot_context b) of
        None \<Rightarrow> False
      | Some ms \<Rightarrow>
          (''patient_id'' \<in> set ms \<or> truthy (ctx_get (partial_patient_id (bot_context b)))) \<and>
          (''format'' \<in> set ms \<or> truthy (ctx_get (partial_format (bot_context b)))))"




text \<open>
  The merge of a stored partial value with an extracted one, in the words of the
  specification: the newest non-empty value wins. An extracted value that is non-empty
  replaces the stored one; an empty one leaves the stored value as it is. The statements
  compare it with what the handlers store.
\<close>

definition newest_non_empty :: "json option \<Rightarrow> json \<Rightarrow> json option" where
  "newest_non_empty stored extracted = (if truthy extracted then Some extracted else stored)"

section \<open>A scripted environment and concrete sessions\<close>

text \<open>
  Collaborators with fixed answers, for evaluating the model on concrete sessions: the
  \<open>n\<close>-th completion is the \<open>n\<close>-th entry of \<open>replies\<close> (a request beyond the
  script, or an entry \<open>None\<close>, raises), \<open>table\<close> lists what \<^verbatim>\<open>json.loads\<close>
  returns, every patient has a dataset of 288 readings, and rendering succeeds.
\<close>

definition scripted_env :: "string option list \<Rightarrow> (string \<times> json) list \<Rightarrow> nat env" where
  "scripted_env replies table =
     \<lparr>chat_completion = (\<lambda>n sp up js. if n < length replies then replies ! n else None),
      json_loads = map_of table,
      py_repr = (\<lambda>v. ''[...]''),
      get_patient_data = (\<lambda>p. Inr (Some 288)),
      df_empty = (\<lambda>d. d = 0),
      stats_summary = (\<lambda>d. Inr ''Number of readings: 288''),
      render_plot = (\<lambda>d p. None),
      render_popup = (\<lambda>d p. None),
      write_pdf = (\<lambda>h p. Inr ''20250101_120000'')\<rparr>"

text \<open>
  The same collaborators when the patient folder holds no CSV file:
  \<^verbatim>\<open>get_patient_data\<close> returns \<^verbatim>\<open>None\<close>.
\<close>

definition scripted_env_no_csv :: "string option list \<Rightarrow> (string \<times> json) list \<Rightarrow> nat env" where
  "scripted_env_no_csv replies table =
     (scripted_env replies table)\<lparr>get_patient_data := (\<lambda>p. Inr None)\<rparr>"

text \<open>A catalog of eleven patients.\<close>

definition catalog_11 :: "string list" where
  "catalog_11 = [''001'', ''002'', ''003'', ''004'', ''005'', ''006'', ''007'', ''008'',
                 ''009'', ''010'', ''011'']"

text \<open>
  Answers of the slot extractor, as parsed: an unknown patient with a format, a format
  alone, nothing, patient 001 alone, patient 002 without and with a format, patient 001
  with a format, and the id 1 (which is not in the catalog) with a format. Then a
  completion that is no JSON, and two answers of the intention classifier.
\<close>

definition unknown_raw :: json where
  "unknown_raw = JObject [(''patient_id'', JStr ''999''), (''format'', JStr ''raw'')]"

definition only_figure :: json where
  "only_figure = JObject [(''patient_id'', JStr []), (''format'', JStr ''figure'')]"

definition no_slots :: json where
  "no_slots = JObject [(''patient_id'', JStr []), (''format'', JStr [])]"

definition only_id :: json where
  "only_id = JObject [(''patient_id'', JStr ''001''), (''format'', JStr [])]"

definition only_002 :: json where
  "only_002 = JObject [(''patient_id'', JStr ''002''), (''format'', JStr [])]"

definition figure_002 :: json where
  "figure_002 = JObject [(''patient_id'', JStr ''002''), (''format'', JStr ''figure'')]"

definition raw_001 :: json where
  "raw_001 = JObject [(''patient_id'', JStr ''001''), (''format'', JStr ''raw'')]"



definition wants_new :: json where
  "wants_new = JObject [(''explanation'', JStr ''another patient''),
                        (''intention'', JStr ''retrieve_new'')]"

definition wants_analysis :: json where
  "wants_analysis = JObject [(''explanation'', JStr ''a question about the data''),
                             (''intention'', JStr ''analyze_current'')]"


definition asked_for_id :: "nat bot" where
  "asked_for_id =
     (init_bot [''001''])
       \<lparr>state := NEEDS_CLARIFICATION,
        bot_context := empty_context
          \<lparr>partial_format := Some (JStr ''raw''), missing_info := Some [''patient_id'']\<rparr>\<rparr>"

definition viewing_001 :: "nat bot" where
  "viewing_001 =
     (init_bot [''001'', ''002''])
       \<lparr>client_calls := 1,
        state := DATA_RETRIEVED,
        bot_context := empty_context
          \<lparr>patient_id := Some (JStr ''001''), format := Some (JStr ''raw''),
           patient_data := Some (Some 288)\<rparr>\<rparr>"

section \<open>Properties\<close>

subsection \<open>What a language-model call leaves behind\<close>

lemma wrapper_json_snd [simp]:
  "snd (openai_async_wrapper_json e b sp up) = b\<lparr>client_calls := Suc (client_calls b)\<rparr>"
  by (simp add: openai_async_wrapper_json_def Let_def split: option.splits)

lemma wrapper_text_snd [simp]:
  "snd (openai_async_wrapper_text e b sp up) = b\<lparr>client_calls := Suc (client_calls b)\<rparr>"
  by (simp add: openai_async_wrapper_text_def Let_def split: option.splits)

lemma extract_snd [simp]:
  "snd (extract_patient_and_format e b m) = b\<lparr>client_calls := Suc (client_calls b)\<rparr>"
  by (simp add: extract_patient_and_format_def)

lemma intention_snd [simp]:
  "snd (analyze_intention e b m) = b\<lparr>client_calls := Suc (client_calls b)\<rparr>"
  by (simp add: analyze_intention_def)

lemma glucose_snd:
  "snd (analyze_glucose_data e b m pid d) =
     (case stats_summary e d of
        Inl err \<Rightarrow> b
      | Inr s \<Rightarrow> b\<lparr>client_calls := Suc (client_calls b)\<rparr>)"
  by (simp add: analyze_glucose_data_def split: sum.splits)

subsection \<open>The handlers never touch the history, its cap or the catalog\<close>

lemma initial_log:
  "conversation_history (snd (handle_initial_message e b m)) = conversation_history b \<and>
   max_history_length (snd (handle_initial_message e b m)) = max_history_length b \<and>
   patient_ids (snd (handle_initial_message e b m)) = patient_ids b"
  by (simp add: handle_initial_message_def Let_def case_prod_beta
           split: sum.splits json.splits option.splits)

lemma clarification_log:
  "conversation_history (snd (handle_clarification e b m)) = conversation_history b \<and>
   max_history_length (snd (handle_clarification e b m)) = max_history_length b \<and>
   patient_ids (snd (handle_clarification e b m)) = patient_ids b"
  by (simp add: handle_clarification_def Let_def case_prod_beta initial_log
           split: sum.splits json.splits)

lemma analysis_log:
  "conversation_history (snd (handle_analysis e b m)) = conversation_history b \<and>
   max_history_length (snd (handle_analysis e b m)) = max_history_length b \<and>
   patient_ids (snd (handle_analysis e b m)) = patient_ids b"
  by (simp add: handle_analysis_def Let_def case_prod_beta glucose_snd
           split: sum.splits option.splits)

lemma data_retrieved_log:
  "conversation_history (snd (handle_data_retrieved e b m)) = conversation_history b \<and>
   max_history_length (snd (handle_data_retrieved e b m)) = max_history_length b \<and>
   patient_ids (snd (handle_data_retrieved e b m)) = patient_ids b"
  by (simp add: handle_data_retrieved_def Let_def case_prod_beta initial_log analysis_log
           split: sum.splits json.splits)

subsection \<open>Conversation memory\<close>

lemma update_history_suffix:
  assumes "max_history_length b = 6"
      and "conversation_history b = drop (length full - 6) full"
  shows "conversation_history (update_history b r c)
           = drop (length (full @ [\<lparr>role = r, content = c\<rparr>]) - 6) (full @ [\<lparr>role = r, content = c\<rparr>])
         \<and> max_history_length (update_history b r c) = 6"
proof (cases "length full < 6")
  case True
  with assms show ?thesis
    by (simp add: update_history_def Let_def slice_last_def)
next
  case False
  then have "Suc (length full - 6) = length full - 5" by arith
  with False assms show ?thesis
    by (simp add: update_history_def Let_def slice_last_def)
qed

lemma process_message_suffix:
  assumes "max_history_length b = 6"
      and "conversation_history b = drop (length full - 6) full"
      and "process_message e b u = (res, b')"
  shows "max_history_length b' = 6 \<and>
         conversation_history b' =
           (let all = full @ \<lparr>role = ''user'', content = u\<rparr>
                      # (case res of Inl err \<Rightarrow> [] | Inr r \<Rightarrow> [\<lparr>role = ''bot'', content = r\<rparr>])
            in drop (length all - 6) all)"
proof -
  let ?b0 = "update_history b ''user'' u"
  let ?t = "\<lparr>role = ''user'', content = u\<rparr>"
  have b0: "conversation_history ?b0 = drop (length (full @ [?t]) - 6) (full @ [?t])"
           "max_history_length ?b0 = 6"
    using update_history_suffix [OF assms(1,2)] by auto
  obtain r1 b1 where h: "(case state ?b0 of
              INITIAL \<Rightarrow> handle_initial_message e ?b0 u
            | NEEDS_CLARIFICATION \<Rightarrow> handle_clarification e ?b0 u
            | DATA_RETRIEVED \<Rightarrow> handle_data_retrieved e ?b0 u
            | ANALYZING_DATA \<Rightarrow> handle_analysis e ?b0 u) = (r1, b1)"
    by (cases "(case state ?b0 of
              INITIAL \<Rightarrow> handle_initial_message e ?b0 u
            | NEEDS_CLARIFICATION \<Rightarrow> handle_clarification e ?b0 u
            | DATA_RETRIEVED \<Rightarrow> handle_data_retrieved e ?b0 u
            | ANALYZING_DATA \<Rightarrow> handle_analysis e ?b0 u)") auto
  have b1: "conversation_history b1 = conversation_history ?b0" "max_history_length b1 = 6"
    using h b0(2) initial_log [of e ?b0 u] clarification_log [of e ?b0 u]
          data_retrieved_log [of e ?b0 u] analysis_log [of e ?b0 u]
    by (cases "state ?b0"; simp)+
  show ?thesis
  proof (cases r1)
    case (Inl err)
    with h assms(3) have "res = Inl err" "b' = b1"
      by (auto simp: process_message_def Let_def)
    with b1 b0 show ?thesis by (simp add: Let_def)
  next
    case (Inr r)
    with h assms(3) have eq: "res = Inr r" "b' = update_history b1 ''bot'' r"
      by (auto simp: process_message_def Let_def)
    have "conversation_history b1 = drop (length (full @ [?t]) - 6) (full @ [?t])"
      using b1 b0 by simp
    from update_history_suffix [OF b1(2) this, of "''bot''" r] eq
    show ?thesis by (simp add: Let_def)
  qed
qed

lemma main_loop_suffix:
  assumes "max_history_length b = 6"
      and "conversation_history b = drop (length full - 6) full"
  shows "case main_loop e b inputs of (turns, out, b') \<Rightarrow>
           max_history_length b' = 6 \<and>
           conversation_history b' = drop (length (full @ turns) - 6) (full @ turns)"
  using assms
proof (induction inputs arbitrary: b full)
  case Nil
  then show ?case by simp
next
  case (Cons u us)
  show ?case
  proof (cases "lower u \<in> set [''exit'', ''quit'']")
    case True
    with Cons.prems show ?thesis by simp
  next
    case False
    obtain res b1 where pm: "process_message e b u = (res, b1)"
      by (cases "process_message e b u") auto
    note step = process_message_suffix [OF Cons.prems pm]
    show ?thesis
    proof (cases res)
      case (Inl err)
      with False pm step show ?thesis by (simp add: Let_def)
    next
      case (Inr r)
      let ?full' = "full @ [\<lparr>role = ''user'', content = u\<rparr>, \<lparr>role = ''bot'', content = r\<rparr>]"
      have "max_history_length b1 = 6"
           "conversation_history b1 = drop (length ?full' - 6) ?full'"
        using step Inr by (simp_all add: Let_def)
      from Cons.IH [OF this] Inr False pm show ?thesis
        by (auto split: prod.splits)
    qed
  qed
qed

text \<open>
  Claim C3. Start a session with any catalog and type any lines. Whatever the
  collaborators answer, and whether the session is still running, was quit or ended in
  an exception, the conversation history then holds at most 6 entries, the configured
  cap, and it is exactly the last 6 entries (all of them when there are fewer) of the
  full sequence of turns: eviction is oldest first.
\<close>

theorem history_bounded_fifo:
  "case main_loop e (init_bot ids) inputs of (turns, out, b') \<Rightarrow>
     max_history_length b' = 6 \<and>
     length (conversation_history b') \<le> max_history_length b' \<and>
     conversation_history b' = drop (length turns - 6) turns"
proof -
  have "max_history_length (init_bot ids :: 'a bot) = 6"
       "conversation_history (init_bot ids :: 'a bot) = drop (length ([] :: turn list) - 6) []"
    by (simp_all add: init_bot_def)
  from main_loop_suffix [OF this, of e inputs] show ?thesis
    by (auto split: prod.splits)
qed

subsection \<open>The export rule\<close>

lemma update_history_fields [simp]:
  "state (update_history b r c) = state b"
  "bot_context (update_history b r c) = bot_context b"
  "client_calls (update_history b r c) = client_calls b"
  "patient_ids (update_history b r c) = patient_ids b"
  "max_history_length (update_history b r c) = max_history_length b"
  by (simp_all add: update_history_def Let_def)

text \<open>
  Claim C2. Whatever the state of the bot (the theorem holds for every bot, so for each of
  the four states), an utterance that contains one of the export keywords, compared in
  lower case, is answered by the conversation export alone: the reply is the export's
  result on the history that now ends with the utterance, no completion is requested, and
  the state and the dialogue context after the turn are those before it.
\<close>

theorem export_short_circuit:
  assumes "wants_export m"
  shows "state (snd (process_message e b m)) = state b \<and>
         bot_context (snd (process_message e b m)) = bot_context b \<and>
         client_calls (snd (process_message e b m)) = client_calls b \<and>
         fst (process_message e b m) =
           export_conversation_as_pdf e (update_history b ''user'' m)
             (ctx_get (patient_id (bot_context b)))"
  using assms
  by (cases "state b")
     (simp_all add: process_message_def Let_def handle_initial_message_def
        handle_clarification_def handle_data_retrieved_def handle_analysis_def
        split: sum.splits)

theorem export_short_circuit_witness:
  "wants_export ''Please EXPORT this'' \<and>
   (let b = (init_bot [''001''])\<lparr>state := DATA_RETRIEVED,
              bot_context := empty_context\<lparr>patient_id := Some (JStr ''001'')\<rparr>\<rparr>;
        r = process_message (scripted_env [] []) b ''Please EXPORT this''
    in state (snd r) = DATA_RETRIEVED \<and>
       bot_context (snd r) = empty_context\<lparr>patient_id := Some (JStr ''001'')\<rparr> \<and>
       client_calls (snd r) = 0 \<and>
       fst r = Inr ''Conversation exported to conversation_log_patient_001_20250101_120000.pdf and opened in your default PDF viewer.'')"
proof -
  have w: "wants_export ''Please EXPORT this''"
    by (simp add: wants_export_def export_keywords_def lower_def lower_char_def sublist_code(3))
  show ?thesis
    using export_short_circuit [OF w, of "scripted_env [] []"
        "(init_bot [''001''])\<lparr>state := DATA_RETRIEVED,
              bot_context := empty_context\<lparr>patient_id := Some (JStr ''001'')\<rparr>\<rparr>"] w
    by (simp add: Let_def init_bot_def empty_context_def export_conversation_as_pdf_def
          generate_conversation_pdf_def update_history_def scripted_env_def ctx_get_def)
qed

subsection \<open>The outcomes of a turn in INITIAL and in NEEDS_CLARIFICATION\<close>

lemma catalog_lookup_None: "catalog_lookup v ids = None \<longleftrightarrow> v \<notin> JStr ` set ids"
  by (auto simp: catalog_lookup_def split: json.splits)

lemma catalog_lookup_Some: "catalog_lookup v ids = Some p \<longleftrightarrow> v = JStr p \<and> p \<in> set ids"
  by (auto simp: catalog_lookup_def split: json.splits)

lemma initial_asks:
  assumes "\<not> wants_export m"
      and "fst (extract_patient_and_format e b m) = Inr (JObject kv)"
      and "pid = py_or (dict_get kv ''patient_id'') (ctx_get (partial_patient_id (bot_context b)))"
      and "fmt = py_or (dict_get kv ''format'') (ctx_get (partial_format (bot_context b)))"
      and "\<not> truthy pid \<or> \<not> truthy fmt"
  shows "handle_initial_message e b m =
           (Inr (create_clarification_message
                   ((if \<not> truthy pid then [''patient_id''] else [])
                    @ (if \<not> truthy fmt then [''format''] else []))),
            b\<lparr>client_calls := Suc (client_calls b),
              bot_context := (bot_context b)
                \<lparr>partial_patient_id :=
                   (if truthy pid then Some pid else partial_patient_id (bot_context b)),
                 partial_format :=
                   (if truthy fmt then Some fmt else partial_format (bot_context b)),
                 missing_info := Some ((if \<not> truthy pid then [''patient_id''] else [])
                                       @ (if \<not> truthy fmt then [''format''] else []))\<rparr>,
              state := NEEDS_CLARIFICATION\<rparr>)"
  using assms
  by (auto simp: handle_initial_message_def Let_def case_prod_beta)

lemma initial_not_found:
  assumes "\<not> wants_export m"
      and "fst (extract_patient_and_format e b m) = Inr (JObject kv)"
      and "pid = py_or (dict_get kv ''patient_id'') (ctx_get (partial_patient_id (bot_context b)))"
      and "fmt = py_or (dict_get kv ''format'') (ctx_get (partial_format (bot_context b)))"
      and "truthy pid" and "truthy fmt"
      and "catalog_lookup pid (patient_ids b) = None"
  shows "handle_initial_message e b m =
           (Inr (create_patient_not_found_message e b pid),
            b\<lparr>client_calls := Suc (client_calls b),
              bot_context := (bot_context b)
                \<lparr>partial_patient_id := Some pid, partial_format := Some fmt\<rparr>\<rparr>)"
  using assms
  by (auto simp: handle_initial_message_def Let_def case_prod_beta
        create_patient_not_found_message_def)

lemma initial_found:
  assumes "\<not> wants_export m"
      and "fst (extract_patient_and_format e b m) = Inr (JObject kv)"
      and "pid = py_or (dict_get kv ''patient_id'') (ctx_get (partial_patient_id (bot_context b)))"
      and "fmt = py_or (dict_get kv ''format'') (ctx_get (partial_format (bot_context b)))"
      and "truthy pid" and "truthy fmt"
      and "catalog_lookup pid (patient_ids b) = Some p"
      and "get_patient_data e p = Inr data"
  shows "handle_initial_message e b m =
           (case (if fmt = JStr ''figure'' then generate_glucose_plot e data p
                  else display_raw_data_popup e data p) of
              Inl err \<Rightarrow> Inl err
            | Inr r \<Rightarrow> Inr (r @ follow_up_offer),
            b\<lparr>client_calls := Suc (client_calls b),
              bot_context := (bot_context b)
                \<lparr>partial_patient_id := None, partial_format := None,
                 patient_id := Some pid, format := Some fmt, patient_data := Some data\<rparr>,
              state := DATA_RETRIEVED\<rparr>)"
  using assms
  by (auto simp: handle_initial_message_def Let_def case_prod_beta split: sum.splits)


lemma initial_raises:
  assumes "\<not> wants_export m"
      and "fst (extract_patient_and_format e b m) = Inl err"
  shows "handle_initial_message e b m = (Inl err, b\<lparr>client_calls := Suc (client_calls b)\<rparr>)"
  using assms
  by (auto simp: handle_initial_message_def Let_def case_prod_beta)

lemma initial_not_object:
  assumes "\<not> wants_export m"
      and "fst (extract_patient_and_format e b m) = Inr v"
      and "\<forall>kv. v \<noteq> JObject kv"
  shows "handle_initial_message e b m =
           (Inl AttributeError, b\<lparr>client_calls := Suc (client_calls b)\<rparr>)"
  using assms
  by (cases v) (auto simp: handle_initial_message_def Let_def case_prod_beta)

lemma clarification_asks:
  assumes "\<not> wants_export m"
      and "fst (extract_patient_and_format e b m) = Inr (JObject kv)"
      and "pid = py_or (dict_get kv ''patient_id'') (ctx_get (partial_patient_id (bot_context b)))"
      and "fmt = py_or (dict_get kv ''format'') (ctx_get (partial_format (bot_context b)))"
      and "missing = (case missing_info (bot_context b) of None \<Rightarrow> [] | Some ms \<Rightarrow> ms)"
      and "still = (if ''patient_id'' \<in> set missing \<and> \<not> truthy pid then [''patient_id''] else [])
                   @ (if ''format'' \<in> set missing \<and> \<not> truthy fmt then [''format''] else [])"
      and "still \<noteq> []"
  shows "handle_clarification e b m =
           (Inr (create_clarification_message still),
            b\<lparr>client_calls := Suc (client_calls b),
              bot_context := (bot_context b)
                \<lparr>partial_patient_id :=
                   (if truthy pid then Some pid else partial_patient_id (bot_context b)),
                 partial_format :=
                   (if truthy fmt then Some fmt else partial_format (bot_context b)),
                 missing_info := Some still\<rparr>\<rparr>)"
  using assms
  by (cases "truthy pid"; cases "truthy fmt")
     (simp_all add: handle_clarification_def Let_def case_prod_beta)

lemma clarification_completes:
  assumes "\<not> wants_export m"
      and "fst (extract_patient_and_format e b m) = Inr (JObject kv)"
      and "pid = py_or (dict_get kv ''patient_id'') (ctx_get (partial_patient_id (bot_context b)))"
      and "fmt = py_or (dict_get kv ''format'') (ctx_get (partial_format (bot_context b)))"
      and "missing = (case missing_info (bot_context b) of None \<Rightarrow> [] | Some ms \<Rightarrow> ms)"
      and "''patient_id'' \<in> set missing \<longrightarrow> truthy pid"
      and "''format'' \<in> set missing \<longrightarrow> truthy fmt"
  shows "handle_clarification e b m =
           handle_initial_message e
             (b\<lparr>client_calls := Suc (client_calls b),
                bot_context := (bot_context b)
                  \<lparr>partial_patient_id :=
                     (if truthy pid then Some pid else partial_patient_id (bot_context b)),
                   partial_format :=
                     (if truthy fmt then Some fmt else partial_format (bot_context b))\<rparr>,
                state := INITIAL\<rparr>)
             (complete_query e fmt pid)"
  using assms
  by (cases "truthy pid"; cases "truthy fmt")
     (simp_all add: handle_clarification_def Let_def case_prod_beta)

lemma clarification_raises:
  assumes "\<not> wants_export m"
      and "fst (extract_patient_and_format e b m) = Inl err"
  shows "handle_clarification e b m = (Inl err, b\<lparr>client_calls := Suc (client_calls b)\<rparr>)"
  using assms
  by (auto simp: handle_clarification_def Let_def case_prod_beta)

lemma clarification_not_object:
  assumes "\<not> wants_export m"
      and "fst (extract_patient_and_format e b m) = Inr v"
      and "\<forall>kv. v \<noteq> JObject kv"
  shows "handle_clarification e b m =
           (Inl AttributeError, b\<lparr>client_calls := Suc (client_calls b)\<rparr>)"
  using assms
  by (cases v) (auto simp: handle_clarification_def Let_def case_prod_beta)

lemma process_initial:
  assumes "state b = INITIAL"
  shows "process_message e b m =
           (case handle_initial_message e (update_history b ''user'' m) m of
              (Inl err, b1) \<Rightarrow> (Inl err, b1)
            | (Inr r, b1) \<Rightarrow> (Inr r, update_history b1 ''bot'' r))"
  using assms by (simp add: process_message_def Let_def)


lemma process_data_retrieved:
  assumes "state b = DATA_RETRIEVED"
  shows "process_message e b m =
           (case handle_data_retrieved e (update_history b ''user'' m) m of
              (Inl err, b1) \<Rightarrow> (Inl err, b1)
            | (Inr r, b1) \<Rightarrow> (Inr r, update_history b1 ''bot'' r))"
  using assms by (simp add: process_message_def Let_def)

lemma process_analysis:
  assumes "state b = ANALYZING_DATA"
  shows "process_message e b m =
           (case handle_analysis e (update_history b ''user'' m) m of
              (Inl err, b1) \<Rightarrow> (Inl err, b1)
            | (Inr r, b1) \<Rightarrow> (Inr r, update_history b1 ''bot'' r))"
  using assms by (simp add: process_message_def Let_def)

lemma process_not_found:
  assumes "state b = INITIAL"
      and "\<not> wants_export m"
      and "fst (extract_patient_and_format e (update_history b ''user'' m) m) = Inr (JObject kv)"
      and "pid = py_or (dict_get kv ''patient_id'') (ctx_get (partial_patient_id (bot_context b)))"
      and "fmt = py_or (dict_get kv ''format'') (ctx_get (partial_format (bot_context b)))"
      and "truthy pid" and "truthy fmt"
      and "pid \<notin> JStr ` set (patient_ids b)"
  shows "process_message e b m =
           (Inr (create_patient_not_found_message e b pid),
            update_history
              ((update_history b ''user'' m)
                 \<lparr>client_calls := Suc (client_calls b),
                  bot_context := (bot_context b)
                    \<lparr>partial_patient_id := Some pid, partial_format := Some fmt\<rparr>\<rparr>)
              ''bot'' (create_patient_not_found_message e b pid))"
proof -
  let ?b0 = "update_history b ''user'' m"
  have "catalog_lookup pid (patient_ids ?b0) = None"
    using assms(8) by (simp add: catalog_lookup_None)
  from initial_not_found [of m e ?b0 kv pid fmt, OF assms(2,3) _ _ assms(6,7) this] assms(4,5)
  have "handle_initial_message e ?b0 m =
          (Inr (create_patient_not_found_message e ?b0 pid),
           ?b0\<lparr>client_calls := Suc (client_calls ?b0),
              bot_context := (bot_context ?b0)
                \<lparr>partial_patient_id := Some pid, partial_format := Some fmt\<rparr>\<rparr>)"
    by simp
  then show ?thesis
    using assms(1)
    by (simp add: process_initial create_patient_not_found_message_def)
qed

lemma process_initial_keeps_partial:
  assumes "state b = INITIAL"
      and "partial_patient_id (bot_context b) = Some pid"
      and "\<forall>kv. fst (extract_patient_and_format e (update_history b ''user'' m) m) = Inr (JObject kv)
                \<longrightarrow> \<not> truthy (dict_get kv ''patient_id'')"
      and "truthy pid" and "pid \<notin> JStr ` set (patient_ids b)"
  shows "partial_patient_id (bot_context (snd (process_message e b m))) = Some pid"
proof (cases "wants_export m")
  case True
  then show ?thesis
    using assms(1,2) by (simp add: process_initial handle_initial_message_def split: sum.splits)
next
  case False
  let ?b0 = "update_history b ''user'' m"
  show ?thesis
  proof (cases "fst (extract_patient_and_format e ?b0 m)")
    case (Inl err)
    from initial_raises [OF False Inl] assms(1,2) show ?thesis
      by (simp add: process_initial)
  next
    case (Inr v)
    show ?thesis
    proof (cases "\<exists>kv. v = JObject kv")
      case False
      then have "\<forall>kv. v \<noteq> JObject kv" by blast
      from initial_not_object [OF \<open>\<not> wants_export m\<close> Inr this] assms(1,2) show ?thesis
        by (simp add: process_initial)
    next
      case True
      then obtain kv where v: "v = JObject kv" by blast
      with Inr assms(3) have q: "\<not> truthy (dict_get kv ''patient_id'')" by simp
      define fmt where "fmt = py_or (dict_get kv ''format'') (ctx_get (partial_format (bot_context b)))"
      have p: "pid = py_or (dict_get kv ''patient_id'') (ctx_get (partial_patient_id (bot_context b)))"
        using q assms(2) by (simp add: py_or_def ctx_get_def)
      have x: "fst (extract_patient_and_format e ?b0 m) = Inr (JObject kv)"
        using Inr v by simp
      show ?thesis
      proof (cases "truthy fmt")
        case True
        from process_not_found [OF assms(1) \<open>\<not> wants_export m\<close> x p fmt_def assms(4) True assms(5)]
        show ?thesis by simp
      next
        case nf: False
        have "\<not> truthy pid \<or> \<not> truthy fmt" using nf by simp
        from initial_asks [of m e ?b0 kv pid fmt, OF \<open>\<not> wants_export m\<close> x _ _ this] p fmt_def
             assms(1,4)
        show ?thesis by (simp add: process_initial)
      qed
    qed
  qed
qed

lemmas run_simps =
  extract_patient_and_format_def openai_async_wrapper_json_def scripted_env_def
  init_bot_def empty_context_def update_history_def Let_def

subsection \<open>Unknown patients\<close>

text \<open>
  Claim C6. The bot is in INITIAL, the utterance is no export request, and the extracted
  slots merged with the stored partial ones give a patient id and a format, but the id is
  not in the catalog. Then the bot is still in INITIAL after the turn; the context is the
  one before the turn with the two merged slots stored as partial values, so nothing that
  was resolved is cleared; and the reply is, character for character, the not-found text
  naming the id, the first ten catalog ids (all of them when there are fewer) separated
  by a comma and a space, the request for another id, and after it the note that only the
  first 10 ids were shown, with the size of the catalog, exactly when the catalog has
  more than ten ids.
\<close>

theorem patient_not_found_outcome:
  assumes "state b = INITIAL"
      and "\<not> wants_export m"
      and "fst (extract_patient_and_format e (update_history b ''user'' m) m) = Inr (JObject kv)"
      and "pid = py_or (dict_get kv ''patient_id'') (ctx_get (partial_patient_id (bot_context b)))"
      and "fmt = py_or (dict_get kv ''format'') (ctx_get (partial_format (bot_context b)))"
      and "truthy pid" and "truthy fmt"
      and "pid \<notin> JStr ` set (patient_ids b)"
  shows "state (snd (process_message e b m)) = INITIAL \<and>
         bot_context (snd (process_message e b m)) =
           (bot_context b)\<lparr>partial_patient_id := Some pid, partial_format := Some fmt\<rparr> \<and>
         fst (process_message e b m) =
           Inr ([NL] @ ''I'm sorry, but I couldn't find data for patient ''
                @ py_str (py_repr e) pid @ ''. '' @ [NL]
                @ ''Available patient IDs are: ''
                @ join_comma (take 10 (patient_ids b)) @ ''.'' @ [NL]
                @ ''Please specify a valid patient ID.'' @ [NL]
                @ [NL, NL]
                @ ''Please provide another patient ID from the list above. For example: ''
                @ [CHR 0x27] @ ''Show me data for patient 015'' @ [CHR 0x27]
                @ (if length (patient_ids b) > 10
                   then [NL, NL] @ ''Note: I've shown only the first 10 patient IDs. There are ''
                        @ string_of_nat (length (patient_ids b))
                        @ '' patients available in total.''
                   else []))"
  using process_not_found [OF assms]
  by (simp add: create_patient_not_found_message_def PATIENT_NOT_FOUND_PROMPT_def
        another_id_hint_def overflow_note_def assms(1))

theorem patient_not_found_outcome_witness:
  "state (init_bot catalog_11 :: nat bot) = INITIAL \<and>
   \<not> wants_export ''raw data of 999'' \<and>
   fst (extract_patient_and_format (scripted_env [Some ''A''] [(''A'', unknown_raw)])
          (update_history (init_bot catalog_11) ''user'' ''raw data of 999'') ''raw data of 999'')
     = Inr unknown_raw \<and>
   truthy (JStr ''999'') \<and> truthy (JStr ''raw'') \<and>
   JStr ''999'' \<notin> JStr ` set catalog_11 \<and>
   state (snd (process_message (scripted_env [Some ''A''] [(''A'', unknown_raw)])
                 (init_bot catalog_11) ''raw data of 999'')) = INITIAL \<and>
   bot_context (snd (process_message (scripted_env [Some ''A''] [(''A'', unknown_raw)])
                 (init_bot catalog_11) ''raw data of 999''))
     = empty_context\<lparr>partial_patient_id := Some (JStr ''999''),
                      partial_format := Some (JStr ''raw'')\<rparr> \<and>
   fst (process_message (scripted_env [Some ''A''] [(''A'', unknown_raw)])
          (init_bot catalog_11) ''raw data of 999'')
     = Inr ([NL] @ ''I'm sorry, but I couldn't find data for patient 999. '' @ [NL]
            @ ''Available patient IDs are: 001, 002, 003, 004, 005, 006, 007, 008, 009, 010.''
            @ [NL] @ ''Please specify a valid patient ID.'' @ [NL, NL, NL]
            @ ''Please provide another patient ID from the list above. For example: ''
            @ [CHR 0x27] @ ''Show me data for patient 015'' @ [CHR 0x27, NL, NL]
            @ ''Note: I've shown only the first 10 patient IDs. There are 11 patients available in total.'') \<and>
   state (init_bot [''001'', ''002''] :: nat bot) = INITIAL \<and>
   fst (extract_patient_and_format (scripted_env [Some ''A''] [(''A'', unknown_raw)])
          (update_history (init_bot [''001'', ''002'']) ''user'' ''raw data of 999'')
          ''raw data of 999'')
     = Inr unknown_raw \<and>
   JStr ''999'' \<notin> JStr ` set [''001'', ''002''] \<and>
   fst (process_message (scripted_env [Some ''A''] [(''A'', unknown_raw)])
          (init_bot [''001'', ''002'']) ''raw data of 999'')
     = Inr ([NL] @ ''I'm sorry, but I couldn't find data for patient 999. '' @ [NL]
            @ ''Available patient IDs are: 001, 002.''
            @ [NL] @ ''Please specify a valid patient ID.'' @ [NL, NL, NL]
            @ ''Please provide another patient ID from the list above. For example: ''
            @ [CHR 0x27] @ ''Show me data for patient 015'' @ [CHR 0x27])"
proof -
  let ?e = "scripted_env [Some ''A''] [(''A'', unknown_raw)]"
  let ?b = "init_bot catalog_11 :: nat bot"
  let ?c = "init_bot [''001'', ''002''] :: nat bot"
  let ?m = "''raw data of 999''"
  let ?kv = "[(''patient_id'', JStr ''999''), (''format'', JStr ''raw'')]"
  have h1: "state ?b = INITIAL" "state ?c = INITIAL" by (simp_all add: init_bot_def)
  have h2: "\<not> wants_export ?m" 
    by (simp add: wants_export_def export_keywords_def lower_def lower_char_def sublist_code(3))
  have h3: "fst (extract_patient_and_format ?e (update_history ?b ''user'' ?m) ?m) = Inr (JObject ?kv)"
           "fst (extract_patient_and_format ?e (update_history ?c ''user'' ?m) ?m) = Inr (JObject ?kv)"
    by (simp_all add: run_simps unknown_raw_def)
  have h4: "JStr ''999'' = py_or (dict_get ?kv ''patient_id'') (ctx_get (partial_patient_id (bot_context ?b)))"
           "JStr ''999'' = py_or (dict_get ?kv ''patient_id'') (ctx_get (partial_patient_id (bot_context ?c)))"
    by (simp_all add: py_or_def dict_get_def)
  have h5: "JStr ''raw'' = py_or (dict_get ?kv ''format'') (ctx_get (partial_format (bot_context ?b)))"
           "JStr ''raw'' = py_or (dict_get ?kv ''format'') (ctx_get (partial_format (bot_context ?c)))"
    by (simp_all add: py_or_def dict_get_def)
  have h6: "truthy (JStr ''999'')" "truthy (JStr ''raw'')" by simp_all
  have h7: "JStr ''999'' \<notin> JStr ` set (patient_ids ?b)" "JStr ''999'' \<notin> JStr ` set (patient_ids ?c)"
    by (simp_all add: init_bot_def catalog_11_def)
  from patient_not_found_outcome [OF h1(1) h2 h3(1) h4(1) h5(1) h6 h7(1)]
       patient_not_found_outcome [OF h1(2) h2 h3(2) h4(2) h5(2) h6 h7(2)]
       h1 h2 h3 h6 h7
  show ?thesis
    by (simp add: init_bot_def unknown_raw_def catalog_11_def)
qed

text \<open>
  Claim C10. After such a not-found turn the bot is in INITIAL and the unknown id is
  stored as the partial patient id. A next utterance for which the extractor returns no
  patient id (for example only a format) falls back to that id and is answered by the
  not-found message again, and the id stays stored. More generally it stays stored after
  any next turn in which the extractor did not return an object with a non-empty patient
  id.
\<close>

theorem invalid_id_sticks:
  assumes "state b = INITIAL"
      and "\<not> wants_export m1"
      and "fst (extract_patient_and_format e (update_history b ''user'' m1) m1) = Inr (JObject kv1)"
      and "pid = py_or (dict_get kv1 ''patient_id'') (ctx_get (partial_patient_id (bot_context b)))"
      and "fmt = py_or (dict_get kv1 ''format'') (ctx_get (partial_format (bot_context b)))"
      and "truthy pid" and "truthy fmt"
      and "pid \<notin> JStr ` set (patient_ids b)"
      and "b1 = snd (process_message e b m1)"
      and "\<not> wants_export m2"
      and "fst (extract_patient_and_format e (update_history b1 ''user'' m2) m2) = Inr (JObject kv2)"
      and "\<not> truthy (dict_get kv2 ''patient_id'')"
  shows "state b1 = INITIAL \<and>
         partial_patient_id (bot_context b1) = Some pid \<and>
         fst (process_message e b1 m2) = Inr (create_patient_not_found_message e b pid) \<and>
         state (snd (process_message e b1 m2)) = INITIAL \<and>
         partial_patient_id (bot_context (snd (process_message e b1 m2))) = Some pid \<and>
         ((\<forall>kv. fst (extract_patient_and_format e (update_history b1 ''user'' m3) m3)
                   = Inr (JObject kv) \<longrightarrow> \<not> truthy (dict_get kv ''patient_id''))
          \<longrightarrow> partial_patient_id (bot_context (snd (process_message e b1 m3))) = Some pid)"
proof -
  note t1 = process_not_found [OF assms(1-8)]
  have b1: "state b1 = INITIAL" "partial_patient_id (bot_context b1) = Some pid"
           "partial_format (bot_context b1) = Some fmt" "patient_ids b1 = patient_ids b"
    using t1 assms(1,9) by simp_all
  have p2: "pid = py_or (dict_get kv2 ''patient_id'') (ctx_get (partial_patient_id (bot_context b1)))"
    using assms(12) b1 by (simp add: py_or_def ctx_get_def)
  define fmt2 where "fmt2 = py_or (dict_get kv2 ''format'') (ctx_get (partial_format (bot_context b1)))"
  have f2: "truthy fmt2"
    using assms(7) b1 by (simp add: fmt2_def py_or_def ctx_get_def)
  have nf: "pid \<notin> JStr ` set (patient_ids b1)" using assms(8) b1 by simp
  note t2 = process_not_found [OF b1(1) assms(10,11) p2 fmt2_def assms(6) f2 nf]
  have msg: "create_patient_not_found_message e b1 pid = create_patient_not_found_message e b pid"
    using b1 by (simp add: create_patient_not_found_message_def)
  have "(\<forall>kv. fst (extract_patient_and_format e (update_history b1 ''user'' m3) m3)
                   = Inr (JObject kv) \<longrightarrow> \<not> truthy (dict_get kv ''patient_id''))
          \<longrightarrow> partial_patient_id (bot_context (snd (process_message e b1 m3))) = Some pid"
    using process_initial_keeps_partial [OF b1(1,2) _ assms(6) nf] by blast
  with b1 t2 msg show ?thesis by simp
qed

theorem invalid_id_sticks_witness:
  "state (init_bot [''001''] :: nat bot) = INITIAL \<and>
   \<not> wants_export ''raw data of 999'' \<and>
   fst (extract_patient_and_format
          (scripted_env [Some ''A'', Some ''B''] [(''A'', unknown_raw), (''B'', only_figure)])
          (update_history (init_bot [''001'']) ''user'' ''raw data of 999'') ''raw data of 999'')
     = Inr unknown_raw \<and>
   truthy (JStr ''999'') \<and> truthy (JStr ''raw'') \<and>
   JStr ''999'' \<notin> JStr ` set [''001''] \<and>
   \<not> wants_export ''as a figure'' \<and>
   fst (extract_patient_and_format
          (scripted_env [Some ''A'', Some ''B''] [(''A'', unknown_raw), (''B'', only_figure)])
          (update_history
             (snd (process_message
                     (scripted_env [Some ''A'', Some ''B'']
                        [(''A'', unknown_raw), (''B'', only_figure)])
                     (init_bot [''001'']) ''raw data of 999''))
             ''user'' ''as a figure'') ''as a figure'')
     = Inr only_figure \<and>
   \<not> truthy (JStr []) \<and>
   fst (process_message
          (scripted_env [Some ''A'', Some ''B''] [(''A'', unknown_raw), (''B'', only_figure)])
          (snd (process_message
                  (scripted_env [Some ''A'', Some ''B'']
                     [(''A'', unknown_raw), (''B'', only_figure)])
                  (init_bot [''001'']) ''raw data of 999''))
          ''as a figure'')
     = Inr (PATIENT_NOT_FOUND_PROMPT ''999'' ''001'' @ another_id_hint) \<and>
   partial_patient_id (bot_context (snd (process_message
          (scripted_env [Some ''A'', Some ''B''] [(''A'', unknown_raw), (''B'', only_figure)])
          (snd (process_message
                  (scripted_env [Some ''A'', Some ''B'']
                     [(''A'', unknown_raw), (''B'', only_figure)])
                  (init_bot [''001'']) ''raw data of 999''))
          ''as a figure'')))
     = Some (JStr ''999'')"
proof -
  let ?e = "scripted_env [Some ''A'', Some ''B''] [(''A'', unknown_raw), (''B'', only_figure)]"
  let ?b = "init_bot [''001''] :: nat bot"
  let ?m1 = "''raw data of 999''"
  let ?m2 = "''as a figure''"
  let ?kv1 = "[(''patient_id'', JStr ''999''), (''format'', JStr ''raw'')]"
  let ?kv2 = "[(''patient_id'', JStr []), (''format'', JStr ''figure'')]"
  let ?b1 = "snd (process_message ?e ?b ?m1)"
  have h1: "state ?b = INITIAL" by (simp add: init_bot_def)
  have h2: "\<not> wants_export ?m1"
    by (simp add: wants_export_def export_keywords_def lower_def lower_char_def sublist_code(3))
  have h3: "fst (extract_patient_and_format ?e (update_history ?b ''user'' ?m1) ?m1) = Inr (JObject ?kv1)"
    by (simp add: run_simps unknown_raw_def)
  have h4: "JStr ''999'' = py_or (dict_get ?kv1 ''patient_id'') (ctx_get (partial_patient_id (bot_context ?b)))"
    by (simp add: py_or_def dict_get_def)
  have h5: "JStr ''raw'' = py_or (dict_get ?kv1 ''format'') (ctx_get (partial_format (bot_context ?b)))"
    by (simp add: py_or_def dict_get_def)
  have h6: "truthy (JStr ''999'')" "truthy (JStr ''raw'')" by simp_all
  have h7: "JStr ''999'' \<notin> JStr ` set (patient_ids ?b)"
    by (simp add: init_bot_def)
  have h8: "\<not> wants_export ?m2"
    by (simp add: wants_export_def export_keywords_def lower_def lower_char_def sublist_code(3))
  have calls: "client_calls ?b1 = 1"
    using process_not_found [OF h1 h2 h3 h4 h5 h6 h7] by (simp add: init_bot_def)
  have h9: "fst (extract_patient_and_format ?e (update_history ?b1 ''user'' ?m2) ?m2) = Inr (JObject ?kv2)"
    using calls
    by (simp add: extract_patient_and_format_def openai_async_wrapper_json_def scripted_env_def
          Let_def only_figure_def)
  have h10: "\<not> truthy (dict_get ?kv2 ''patient_id'')" by (simp add: dict_get_def)
  from invalid_id_sticks [OF h1 h2 h3 h4 h5 h6 h7 refl h8 h9 h10, of "''as a figure''"]
       h1 h2 h3 h6 h7 h8 h9
  show ?thesis
    by (simp add: init_bot_def unknown_raw_def only_figure_def
          create_patient_not_found_message_def)
qed

subsection \<open>Clarification\<close>

lemma py_or_truthy [simp]: "truthy b \<Longrightarrow> truthy (py_or a b)"
  by (simp add: py_or_def)

lemma py_or_falsy: "\<not> truthy a \<Longrightarrow> py_or a b = b"
  by (simp add: py_or_def)

lemma py_or_first: "truthy a \<Longrightarrow> py_or a b = a"
  by (simp add: py_or_def)

lemma initial_keeps_missing:
  assumes "truthy (ctx_get (partial_patient_id (bot_context b)))"
      and "truthy (ctx_get (partial_format (bot_context b)))"
  shows "missing_info (bot_context (snd (handle_initial_message e b m)))
           = missing_info (bot_context b) \<and>
         state (snd (handle_initial_message e b m)) \<in> {state b, DATA_RETRIEVED}"
  using assms
  by (simp add: handle_initial_message_def Let_def case_prod_beta
        split: sum.splits json.splits option.splits)

lemma initial_state_after:
  assumes "state b = INITIAL"
  shows "state (snd (handle_initial_message e b m)) = NEEDS_CLARIFICATION
           \<longrightarrow> awaiting_slots (snd (handle_initial_message e b m))"
  using assms
  by (simp add: handle_initial_message_def Let_def case_prod_beta awaiting_slots_def ctx_get_def
        split: sum.splits json.splits option.splits)

lemma clarification_missing_subset:
  assumes "awaiting_slots b"
  shows "\<exists>ms ms'. missing_info (bot_context b) = Some ms \<and>
           missing_info (bot_context (snd (handle_clarification e b m))) = Some ms' \<and>
           set ms' \<subseteq> set ms"
proof -
  from assms obtain ms where ms: "missing_info (bot_context b) = Some ms"
    and p: "''patient_id'' \<in> set ms \<or> truthy (ctx_get (partial_patient_id (bot_context b)))"
    and f: "''format'' \<in> set ms \<or> truthy (ctx_get (partial_format (bot_context b)))"
    by (auto simp: awaiting_slots_def split: option.splits)
  show ?thesis
  proof (cases "wants_export m")
    case True
    then show ?thesis using ms by (simp add: handle_clarification_def)
  next
    case ne: False
    show ?thesis
    proof (cases "fst (extract_patient_and_format e b m)")
      case (Inl err)
      from clarification_raises [OF ne Inl] ms show ?thesis by simp
    next
      case (Inr v)
      show ?thesis
      proof (cases "\<exists>kv. v = JObject kv")
        case False
        then have "\<forall>kv. v \<noteq> JObject kv" by blast
        from clarification_not_object [OF ne Inr this] ms show ?thesis by simp
      next
        case True
        then obtain kv where x: "fst (extract_patient_and_format e b m) = Inr (JObject kv)"
          using Inr by auto
        define pid where "pid = py_or (dict_get kv ''patient_id'') (ctx_get (partial_patient_id (bot_context b)))"
        define fmt where "fmt = py_or (dict_get kv ''format'') (ctx_get (partial_format (bot_context b)))"
        define still where "still = (if ''patient_id'' \<in> set ms \<and> \<not> truthy pid then [''patient_id''] else [])
                   @ (if ''format'' \<in> set ms \<and> \<not> truthy fmt then [''format''] else [])"
        have m0: "ms = (case missing_info (bot_context b) of None \<Rightarrow> [] | Some ms \<Rightarrow> ms)"
          using ms by simp
        show ?thesis
        proof (cases "still = []")
          case False
          from clarification_asks [OF ne x pid_def fmt_def m0 still_def False] ms
          show ?thesis by (auto simp: still_def)
        next
          case True
          then have a: "''patient_id'' \<in> set ms \<longrightarrow> truthy pid"
                and b: "''format'' \<in> set ms \<longrightarrow> truthy fmt"
            by (auto simp: still_def split: if_splits)
          have tp: "truthy pid" using a p by (auto simp: pid_def)
          have tf: "truthy fmt" using b f by (auto simp: fmt_def)
          let ?b' = "b\<lparr>client_calls := Suc (client_calls b),
                bot_context := (bot_context b)
                  \<lparr>partial_patient_id :=
                     (if truthy pid then Some pid else partial_patient_id (bot_context b)),
                   partial_format :=
                     (if truthy fmt then Some fmt else partial_format (bot_context b))\<rparr>,
                state := INITIAL\<rparr>"
          have eq: "handle_clarification e b m = handle_initial_message e ?b' (complete_query e fmt pid)"
            by (rule clarification_completes [OF ne x pid_def fmt_def m0 a b])
          have "missing_info (bot_context (snd (handle_initial_message e ?b' (complete_query e fmt pid))))
                  = missing_info (bot_context ?b')"
            using initial_keeps_missing [of ?b' e "complete_query e fmt pid"] tp tf
            by (simp add: ctx_get_def)
          with eq ms show ?thesis by simp
        qed
      qed
    qed
  qed
qed

lemma awaiting_update_history [simp]:
  "awaiting_slots (update_history b r c) = awaiting_slots b"
  by (simp add: awaiting_slots_def split: option.splits)

lemma process_fields:
  "state b = INITIAL \<Longrightarrow>
     state (snd (process_message e b m)) = state (snd (handle_initial_message e (update_history b ''user'' m) m)) \<and>
     bot_context (snd (process_message e b m)) = bot_context (snd (handle_initial_message e (update_history b ''user'' m) m)) \<and>
     client_calls (snd (process_message e b m)) = client_calls (snd (handle_initial_message e (update_history b ''user'' m) m)) \<and>
     fst (process_message e b m) = fst (handle_initial_message e (update_history b ''user'' m) m)"
  "state b = NEEDS_CLARIFICATION \<Longrightarrow>
     state (snd (process_message e b m)) = state (snd (handle_clarification e (update_history b ''user'' m) m)) \<and>
     bot_context (snd (process_message e b m)) = bot_context (snd (handle_clarification e (update_history b ''user'' m) m)) \<and>
     client_calls (snd (process_message e b m)) = client_calls (snd (handle_clarification e (update_history b ''user'' m) m)) \<and>
     fst (process_message e b m) = fst (handle_clarification e (update_history b ''user'' m) m)"
  "state b = DATA_RETRIEVED \<Longrightarrow>
     state (snd (process_message e b m)) = state (snd (handle_data_retrieved e (update_history b ''user'' m) m)) \<and>
     bot_context (snd (process_message e b m)) = bot_context (snd (handle_data_retrieved e (update_history b ''user'' m) m)) \<and>
     client_calls (snd (process_message e b m)) = client_calls (snd (handle_data_retrieved e (update_history b ''user'' m) m)) \<and>
     fst (process_message e b m) = fst (handle_data_retrieved e (update_history b ''user'' m) m)"
  "state b = ANALYZING_DATA \<Longrightarrow>
     state (snd (process_message e b m)) = state (snd (handle_analysis e (update_history b ''user'' m) m)) \<and>
     bot_context (snd (process_message e b m)) = bot_context (snd (handle_analysis e (update_history b ''user'' m) m)) \<and>
     client_calls (snd (process_message e b m)) = client_calls (snd (handle_analysis e (update_history b ''user'' m) m)) \<and>
     fst (process_message e b m) = fst (handle_analysis e (update_history b ''user'' m) m)"
  by (simp_all add: process_message_def Let_def split: prod.splits sum.splits)

lemma clarification_state_after:
  assumes "awaiting_slots b"
  shows "state (snd (handle_clarification e b m)) = NEEDS_CLARIFICATION
           \<longrightarrow> awaiting_slots (snd (handle_clarification e b m))"
proof -
  from assms obtain ms where ms: "missing_info (bot_context b) = Some ms"
    and s: "state b = NEEDS_CLARIFICATION"
    and p: "''patient_id'' \<in> set ms \<or> truthy (ctx_get (partial_patient_id (bot_context b)))"
    and f: "''format'' \<in> set ms \<or> truthy (ctx_get (partial_format (bot_context b)))"
    by (auto simp: awaiting_slots_def split: option.splits)
  show ?thesis
  proof (cases "wants_export m")
    case True
    then show ?thesis using assms by (simp add: handle_clarification_def)
  next
    case ne: False
    show ?thesis
    proof (cases "fst (extract_patient_and_format e b m)")
      case (Inl err)
      from clarification_raises [OF ne Inl] ms s p f show ?thesis
        by (simp add: awaiting_slots_def)
    next
      case (Inr v)
      show ?thesis
      proof (cases "\<exists>kv. v = JObject kv")
        case False
        then have "\<forall>kv. v \<noteq> JObject kv" by blast
        from clarification_not_object [OF ne Inr this] ms s p f show ?thesis
          by (simp add: awaiting_slots_def)
      next
        case True
        then obtain kv where x: "fst (extract_patient_and_format e b m) = Inr (JObject kv)"
          using Inr by auto
        define pid where "pid = py_or (dict_get kv ''patient_id'') (ctx_get (partial_patient_id (bot_context b)))"
        define fmt where "fmt = py_or (dict_get kv ''format'') (ctx_get (partial_format (bot_context b)))"
        define still where "still = (if ''patient_id'' \<in> set ms \<and> \<not> truthy pid then [''patient_id''] else [])
                   @ (if ''format'' \<in> set ms \<and> \<not> truthy fmt then [''format''] else [])"
        have m0: "ms = (case missing_info (bot_context b) of None \<Rightarrow> [] | Some ms \<Rightarrow> ms)"
          using ms by simp
        have tp: "''patient_id'' \<notin> set ms \<Longrightarrow> truthy pid" using p by (auto simp: pid_def)
        have tf: "''format'' \<notin> set ms \<Longrightarrow> truthy fmt" using f by (auto simp: fmt_def)
        show ?thesis
        proof (cases "still = []")
          case False
          from clarification_asks [OF ne x pid_def fmt_def m0 still_def False] s tp tf
          show ?thesis
            by (auto simp: awaiting_slots_def still_def ctx_get_def)
        next
          case True
          then have a: "''patient_id'' \<in> set ms \<longrightarrow> truthy pid"
                and b: "''format'' \<in> set ms \<longrightarrow> truthy fmt"
            by (auto simp: still_def split: if_splits)
          from clarification_completes [OF ne x pid_def fmt_def m0 a b]
          show ?thesis
            by (simp add: initial_state_after)
        qed
      qed
    qed
  qed
qed

lemma analysis_state_after:
  "state (snd (handle_analysis e b m)) \<in> {state b, INITIAL, DATA_RETRIEVED}"
  by (simp add: handle_analysis_def Let_def case_prod_beta glucose_snd
        split: sum.splits option.splits)

lemma data_retrieved_state_after:
  assumes "state b = DATA_RETRIEVED"
  shows "state (snd (handle_data_retrieved e b m)) = NEEDS_CLARIFICATION
           \<longrightarrow> awaiting_slots (snd (handle_data_retrieved e b m))"
proof (cases "wants_export m")
  case True
  then show ?thesis using assms by (simp add: handle_data_retrieved_def)
next
  case False
  have an: "\<And>b'. state b' = ANALYZING_DATA \<Longrightarrow>
              state (snd (handle_analysis e b' m)) \<noteq> NEEDS_CLARIFICATION"
    using analysis_state_after by (metis BotState.distinct(2,8,10) insertE singletonD)
  show ?thesis
    using False assms an
    by (simp add: handle_data_retrieved_def Let_def case_prod_beta initial_state_after
          split: sum.splits json.splits)
qed

lemma awaiting_cong:
  "state b1 = state b2 \<Longrightarrow> bot_context b1 = bot_context b2 \<Longrightarrow>
     awaiting_slots b1 = awaiting_slots b2"
  by (simp add: awaiting_slots_def cong: option.case_cong)

lemma process_message_awaiting:
  assumes "state b = NEEDS_CLARIFICATION \<longrightarrow> awaiting_slots b"
  shows "state (snd (process_message e b m)) = NEEDS_CLARIFICATION
           \<longrightarrow> awaiting_slots (snd (process_message e b m))"
proof -
  let ?b0 = "update_history b ''user'' m"
  show ?thesis
  proof (cases "state b")
    case INITIAL
    from process_fields(1) [OF INITIAL, of e m] initial_state_after [of ?b0 e m] INITIAL
    show ?thesis
      using awaiting_cong [of "snd (process_message e b m)" "snd (handle_initial_message e ?b0 m)"]
      by simp
  next
    case NEEDS_CLARIFICATION
    with assms have "awaiting_slots ?b0" by simp
    from process_fields(2) [OF NEEDS_CLARIFICATION, of e m] clarification_state_after [OF this, of e m]
    show ?thesis
      using awaiting_cong [of "snd (process_message e b m)" "snd (handle_clarification e ?b0 m)"]
      by simp
  next
    case DATA_RETRIEVED
    from process_fields(3) [OF DATA_RETRIEVED, of e m] data_retrieved_state_after [of ?b0 e m] DATA_RETRIEVED
    show ?thesis
      using awaiting_cong [of "snd (process_message e b m)" "snd (handle_data_retrieved e ?b0 m)"]
      by simp
  next
    case ANALYZING_DATA
    from process_fields(4) [OF ANALYZING_DATA, of e m] analysis_state_after [of e ?b0 m] ANALYZING_DATA
    show ?thesis by auto
  qed
qed

lemma main_loop_awaiting:
  assumes "state b = NEEDS_CLARIFICATION \<longrightarrow> awaiting_slots b"
  shows "case main_loop e b inputs of (turns, out, b') \<Rightarrow>
           state b' = NEEDS_CLARIFICATION \<longrightarrow> awaiting_slots b'"
  using assms
proof (induction inputs arbitrary: b)
  case Nil
  then show ?case by simp
next
  case (Cons u us)
  from process_message_awaiting [OF Cons.prems, of e u] Cons.IH [of "snd (process_message e b u)"]
       Cons.prems
  show ?case
    by (auto split: prod.splits sum.splits)
qed

lemma session_awaiting:
  "case main_loop e (init_bot ids) inputs of (turns, out, b') \<Rightarrow>
     state b' = NEEDS_CLARIFICATION \<longrightarrow> awaiting_slots b'"
  by (rule main_loop_awaiting) (simp add: init_bot_def)

lemmas export_simps =
  wants_export_def export_keywords_def lower_def lower_char_def sublist_code(3)

lemma initial_calls:
  "client_calls (snd (handle_initial_message e b m)) =
     (if wants_export m then client_calls b else Suc (client_calls b))"
  by (simp add: handle_initial_message_def Let_def case_prod_beta
        split: sum.splits json.splits option.splits)

text \<open>
  Claim C5. From INITIAL with no partial slot stored, an utterance (no export request)
  for which the extractor returns neither slot is answered by the clarification request
  for both slots, and the bot is in NEEDS_CLARIFICATION with the missing list
  patient_id, format. A next utterance for which the extractor returns only a format is
  answered by the request for the patient id alone; the bot stays in NEEDS_CLARIFICATION,
  the missing list is patient_id, and the format is stored as partial value. Finally,
  for every bot that is waiting for slots (every bot in NEEDS_CLARIFICATION that a
  session reaches is, by \<open>session_awaiting\<close>) and every utterance, the missing list
  after the turn is a subset of the missing list before it.
\<close>

theorem clarification_narrows:
  assumes "state b = INITIAL"
      and "\<not> truthy (ctx_get (partial_patient_id (bot_context b)))"
      and "\<not> truthy (ctx_get (partial_format (bot_context b)))"
      and "\<not> wants_export m1"
      and "fst (extract_patient_and_format e (update_history b ''user'' m1) m1) = Inr (JObject kv1)"
      and "\<not> truthy (dict_get kv1 ''patient_id'')" and "\<not> truthy (dict_get kv1 ''format'')"
      and "b1 = snd (process_message e b m1)"
      and "\<not> wants_export m2"
      and "fst (extract_patient_and_format e (update_history b1 ''user'' m2) m2) = Inr (JObject kv2)"
      and "\<not> truthy (dict_get kv2 ''patient_id'')" and "truthy (dict_get kv2 ''format'')"
      and "b2 = snd (process_message e b1 m2)"
  shows "fst (process_message e b m1)
           = Inr (create_clarification_message [''patient_id'', ''format'']) \<and>
         state b1 = NEEDS_CLARIFICATION \<and>
         missing_info (bot_context b1) = Some [''patient_id'', ''format''] \<and>
         fst (process_message e b1 m2) = Inr (create_clarification_message [''patient_id'']) \<and>
         state b2 = NEEDS_CLARIFICATION \<and>
         missing_info (bot_context b2) = Some [''patient_id''] \<and>
         partial_format (bot_context b2) = Some (dict_get kv2 ''format'') \<and>
         (awaiting_slots b3 \<longrightarrow>
            (\<exists>ms ms'. missing_info (bot_context b3) = Some ms \<and>
               missing_info (bot_context (snd (process_message e b3 m3))) = Some ms' \<and>
               set ms' \<subseteq> set ms))"
proof -
  let ?b0 = "update_history b ''user'' m1"
  define pid where "pid = py_or (dict_get kv1 ''patient_id'') (ctx_get (partial_patient_id (bot_context ?b0)))"
  define fmt where "fmt = py_or (dict_get kv1 ''format'') (ctx_get (partial_format (bot_context ?b0)))"
  have np: "\<not> truthy pid" and nf: "\<not> truthy fmt"
    using assms(2,3,6,7) by (simp_all add: pid_def fmt_def py_or_def)
  have "\<not> truthy pid \<or> \<not> truthy fmt" using np by simp
  note t1 = initial_asks [OF assms(4,5) pid_def fmt_def this]
  have r1: "fst (process_message e b m1)
              = Inr (create_clarification_message [''patient_id'', ''format''])"
    and s1: "state b1 = NEEDS_CLARIFICATION"
    and c1: "bot_context b1 = (bot_context b)\<lparr>missing_info := Some [''patient_id'', ''format'']\<rparr>"
    using t1 np nf assms(8) process_fields(1) [OF assms(1), of e m1] by simp_all
  let ?b10 = "update_history b1 ''user'' m2"
  define pid2 where "pid2 = py_or (dict_get kv2 ''patient_id'') (ctx_get (partial_patient_id (bot_context ?b10)))"
  define fmt2 where "fmt2 = py_or (dict_get kv2 ''format'') (ctx_get (partial_format (bot_context ?b10)))"
  have np2: "\<not> truthy pid2" and tf2: "truthy fmt2" and f2: "fmt2 = dict_get kv2 ''format''"
    using assms(2,11,12) c1 by (simp_all add: pid2_def fmt2_def py_or_def)
  define still where "still = (if ''patient_id'' \<in> set [''patient_id'', ''format''] \<and> \<not> truthy pid2 then [''patient_id''] else [])
                   @ (if ''format'' \<in> set [''patient_id'', ''format''] \<and> \<not> truthy fmt2 then [''format''] else [])"
  have st: "still = [''patient_id'']" using np2 tf2 by (simp add: still_def)
  have m0: "[''patient_id'', ''format''] = (case missing_info (bot_context ?b10) of None \<Rightarrow> [] | Some ms \<Rightarrow> ms)"
    using c1 by simp
  have "still \<noteq> []" using st by simp
  note t2 = clarification_asks [OF assms(9,10) pid2_def fmt2_def m0 still_def this]
  have r2: "fst (process_message e b1 m2) = Inr (create_clarification_message [''patient_id''])"
    and s2: "state b2 = NEEDS_CLARIFICATION"
    and c2: "missing_info (bot_context b2) = Some [''patient_id'']"
            "partial_format (bot_context b2) = Some (dict_get kv2 ''format'')"
    using t2 st np2 tf2 f2 s1 assms(13) process_fields(2) [OF s1, of e m2] by simp_all
  have sub: "awaiting_slots b3 \<longrightarrow>
            (\<exists>ms ms'. missing_info (bot_context b3) = Some ms \<and>
               missing_info (bot_context (snd (process_message e b3 m3))) = Some ms' \<and>
               set ms' \<subseteq> set ms)"
  proof
    assume a: "awaiting_slots b3"
    then have s3: "state b3 = NEEDS_CLARIFICATION" by (simp add: awaiting_slots_def)
    from a have "awaiting_slots (update_history b3 ''user'' m3)" by simp
    from clarification_missing_subset [OF this, of e m3] process_fields(2) [OF s3, of e m3]
    show "\<exists>ms ms'. missing_info (bot_context b3) = Some ms \<and>
               missing_info (bot_context (snd (process_message e b3 m3))) = Some ms' \<and>
               set ms' \<subseteq> set ms"
      by simp
  qed
  from r1 s1 c1 r2 s2 c2 sub show ?thesis by simp
qed

theorem clarification_narrows_witness:
  "state (init_bot [''001''] :: nat bot) = INITIAL \<and>
   \<not> wants_export ''hello'' \<and>
   fst (extract_patient_and_format
          (scripted_env [Some ''A'', Some ''B''] [(''A'', no_slots), (''B'', only_figure)])
          (update_history (init_bot [''001'']) ''user'' ''hello'') ''hello'')
     = Inr no_slots \<and>
   \<not> wants_export ''as a figure'' \<and>
   fst (extract_patient_and_format
          (scripted_env [Some ''A'', Some ''B''] [(''A'', no_slots), (''B'', only_figure)])
          (update_history
             (snd (process_message
                     (scripted_env [Some ''A'', Some ''B''] [(''A'', no_slots), (''B'', only_figure)])
                     (init_bot [''001'']) ''hello''))
             ''user'' ''as a figure'') ''as a figure'')
     = Inr only_figure \<and>
   state (snd (process_message
                 (scripted_env [Some ''A'', Some ''B''] [(''A'', no_slots), (''B'', only_figure)])
                 (init_bot [''001'']) ''hello'')) = NEEDS_CLARIFICATION \<and>
   missing_info (bot_context (snd (process_message
                 (scripted_env [Some ''A'', Some ''B''] [(''A'', no_slots), (''B'', only_figure)])
                 (init_bot [''001'']) ''hello''))) = Some [''patient_id'', ''format''] \<and>
   awaiting_slots (snd (process_message
                 (scripted_env [Some ''A'', Some ''B''] [(''A'', no_slots), (''B'', only_figure)])
                 (init_bot [''001'']) ''hello'')) \<and>
   state (snd (process_message
                 (scripted_env [Some ''A'', Some ''B''] [(''A'', no_slots), (''B'', only_figure)])
                 (snd (process_message
                         (scripted_env [Some ''A'', Some ''B'']
                            [(''A'', no_slots), (''B'', only_figure)])
                         (init_bot [''001'']) ''hello''))
                 ''as a figure'')) = NEEDS_CLARIFICATION \<and>
   missing_info (bot_context (snd (process_message
                 (scripted_env [Some ''A'', Some ''B''] [(''A'', no_slots), (''B'', only_figure)])
                 (snd (process_message
                         (scripted_env [Some ''A'', Some ''B'']
                            [(''A'', no_slots), (''B'', only_figure)])
                         (init_bot [''001'']) ''hello''))
                 ''as a figure''))) = Some [''patient_id''] \<and>
   partial_format (bot_context (snd (process_message
                 (scripted_env [Some ''A'', Some ''B''] [(''A'', no_slots), (''B'', only_figure)])
                 (snd (process_message
                         (scripted_env [Some ''A'', Some ''B'']
                            [(''A'', no_slots), (''B'', only_figure)])
                         (init_bot [''001'']) ''hello''))
                 ''as a figure''))) = Some (JStr ''figure'')"
proof -
  let ?e = "scripted_env [Some ''A'', Some ''B''] [(''A'', no_slots), (''B'', only_figure)]"
  let ?b = "init_bot [''001''] :: nat bot"
  let ?m1 = "''hello''"
  let ?m2 = "''as a figure''"
  let ?kv1 = "[(''patient_id'', JStr []), (''format'', JStr [])]"
  let ?kv2 = "[(''patient_id'', JStr []), (''format'', JStr ''figure'')]"
  let ?b1 = "snd (process_message ?e ?b ?m1)"
  have h1: "state ?b = INITIAL" by (simp add: init_bot_def)
  have h2: "\<not> truthy (ctx_get (partial_patient_id (bot_context ?b)))"
           "\<not> truthy (ctx_get (partial_format (bot_context ?b)))"
    by (simp_all add: init_bot_def empty_context_def ctx_get_def)
  have h3: "\<not> wants_export ?m1" by (simp add: export_simps)
  have h4: "fst (extract_patient_and_format ?e (update_history ?b ''user'' ?m1) ?m1) = Inr (JObject ?kv1)"
    by (simp add: run_simps no_slots_def)
  have h5: "\<not> truthy (dict_get ?kv1 ''patient_id'')" "\<not> truthy (dict_get ?kv1 ''format'')"
    by (simp_all add: dict_get_def)
  have h6: "\<not> wants_export ?m2" by (simp add: export_simps)
  have calls: "client_calls ?b1 = 1"
    using process_fields(1) [OF h1, of ?e ?m1] h3
    by (simp add: initial_calls init_bot_def)
  have h7: "fst (extract_patient_and_format ?e (update_history ?b1 ''user'' ?m2) ?m2) = Inr (JObject ?kv2)"
    using calls
    by (simp add: extract_patient_and_format_def openai_async_wrapper_json_def scripted_env_def
          Let_def only_figure_def)
  have h8: "\<not> truthy (dict_get ?kv2 ''patient_id'')" "truthy (dict_get ?kv2 ''format'')"
    by (simp_all add: dict_get_def)
  note cn = clarification_narrows [OF h1 h2 h3 h4 h5 refl h6 h7 h8 refl, of ?b1 ?m2]
  have aw: "awaiting_slots ?b1"
    using cn by (simp add: awaiting_slots_def)
  from cn aw h1 h3 h4 h6 h7
  show ?thesis
    by (simp add: no_slots_def only_figure_def dict_get_def)
qed

subsection \<open>When the extraction fails\<close>






subsection \<open>Completions requested per turn\<close>

lemma clarification_calls:
  "client_calls (snd (handle_clarification e b m)) \<le> client_calls b + 2"
  by (simp add: handle_clarification_def Let_def case_prod_beta initial_calls
        split: sum.splits json.splits)

lemma analysis_calls:
  "client_calls (snd (handle_analysis e b m)) \<le> client_calls b + 1"
  by (simp add: handle_analysis_def Let_def case_prod_beta glucose_snd
        split: sum.splits option.splits)

lemma data_retrieved_calls:
  "client_calls (snd (handle_data_retrieved e b m)) \<le> client_calls b + 3"
proof -
  have a: "\<And>b'. client_calls (snd (handle_analysis e b' m)) \<le> client_calls b' + 1"
    by (rule analysis_calls)
  show ?thesis
    using a [of "b\<lparr>client_calls := Suc (client_calls b), state := ANALYZING_DATA\<rparr>"]
    by (simp add: handle_data_retrieved_def Let_def case_prod_beta initial_calls
          split: sum.splits json.splits)
qed

lemma process_message_calls:
  "client_calls (snd (process_message e b m)) \<le> client_calls b + 3"
proof (cases "state b")
  case INITIAL
  from process_fields(1) [OF this, of e m] show ?thesis by (simp add: initial_calls)
next
  case NEEDS_CLARIFICATION
  from process_fields(2) [OF this, of e m]
       clarification_calls [of e "update_history b ''user'' m" m]
  show ?thesis by simp
next
  case DATA_RETRIEVED
  from process_fields(3) [OF this, of e m]
       data_retrieved_calls [of e "update_history b ''user'' m" m]
  show ?thesis by simp
next
  case ANALYZING_DATA
  from process_fields(4) [OF this, of e m]
       analysis_calls [of e "update_history b ''user'' m" m]
  show ?thesis by simp
qed

text \<open>
  Claim C8. In NEEDS_CLARIFICATION, when the extracted slots merged with the stored
  partial ones resolve both the patient id and the format, the handler stores both, sets
  the state to INITIAL and returns what \<^verbatim>\<open>_handle_initial_message\<close> returns, once, on
  the utterance Get (format) data for patient (id). That call finds both slots stored,
  so the turn ends in INITIAL or DATA_RETRIEVED and never asks for clarification again;
  it requests one more completion (none if the synthesized utterance itself contains an
  export keyword), two in the whole turn. In general, for every bot and every utterance
  \<^verbatim>\<open>process_message\<close> returns after at most three completion requests: the model is
  a total function of the collaborators' answers, defined without recursion.
\<close>

theorem clarification_reentry_once:
  assumes "state b = NEEDS_CLARIFICATION"
      and "\<not> wants_export m"
      and "fst (extract_patient_and_format e (update_history b ''user'' m) m) = Inr (JObject kv)"
      and "pid = py_or (dict_get kv ''patient_id'') (ctx_get (partial_patient_id (bot_context b)))"
      and "fmt = py_or (dict_get kv ''format'') (ctx_get (partial_format (bot_context b)))"
      and "truthy pid" and "truthy fmt"
      and "b' = (update_history b ''user'' m)
                  \<lparr>client_calls := Suc (client_calls b),
                   bot_context := (bot_context b)
                     \<lparr>partial_patient_id := Some pid, partial_format := Some fmt\<rparr>,
                   state := INITIAL\<rparr>"
      and "query = ''Get '' @ py_str (py_repr e) fmt @ '' data for patient ''
                   @ py_str (py_repr e) pid"
  shows "handle_clarification e (update_history b ''user'' m) m
           = handle_initial_message e b' query \<and>
         fst (process_message e b m) = fst (handle_initial_message e b' query) \<and>
         state (snd (process_message e b m)) \<in> {INITIAL, DATA_RETRIEVED} \<and>
         client_calls (snd (process_message e b m))
           = (if wants_export query then client_calls b + 1 else client_calls b + 2) \<and>
         client_calls (snd (process_message e b2 m2)) \<le> client_calls b2 + 3"
proof -
  let ?b0 = "update_history b ''user'' m"
  have p: "pid = py_or (dict_get kv ''patient_id'') (ctx_get (partial_patient_id (bot_context ?b0)))"
    and f: "fmt = py_or (dict_get kv ''format'') (ctx_get (partial_format (bot_context ?b0)))"
    using assms(4,5) by simp_all
  define missing where "missing = (case missing_info (bot_context ?b0) of None \<Rightarrow> [] | Some ms \<Rightarrow> ms)"
  have eq: "handle_clarification e ?b0 m = handle_initial_message e b' query"
    using clarification_completes [OF assms(2,3) p f missing_def] assms(6,7,8,9)
    by (simp add: complete_query_def)
  have st: "state (snd (handle_initial_message e b' query)) \<in> {INITIAL, DATA_RETRIEVED}"
    using initial_keeps_missing [of b' e query] assms(6,7,8) by (simp add: ctx_get_def)
  have calls: "client_calls (snd (handle_initial_message e b' query))
                 = (if wants_export query then client_calls b + 1 else client_calls b + 2)"
    using assms(8) by (simp add: initial_calls)
  from process_fields(2) [OF assms(1), of e m] eq st calls process_message_calls [of e b2 m2]
  show ?thesis by simp
qed

theorem clarification_reentry_once_witness:
  "state asked_for_id = NEEDS_CLARIFICATION \<and>
   \<not> wants_export ''patient 001'' \<and>
   fst (extract_patient_and_format (scripted_env [Some ''A'', Some ''A''] [(''A'', only_id)])
          (update_history asked_for_id ''user'' ''patient 001'') ''patient 001'') = Inr only_id \<and>
   truthy (JStr ''001'') \<and> truthy (JStr ''raw'') \<and>
   \<not> wants_export ''Get raw data for patient 001'' \<and>
   fst (process_message (scripted_env [Some ''A'', Some ''A''] [(''A'', only_id)])
          asked_for_id ''patient 001'')
     = Inr (''Displaying raw data for patient 001 in your browser.'' @ follow_up_offer) \<and>
   state (snd (process_message (scripted_env [Some ''A'', Some ''A''] [(''A'', only_id)])
                 asked_for_id ''patient 001'')) = DATA_RETRIEVED \<and>
   client_calls (snd (process_message (scripted_env [Some ''A'', Some ''A''] [(''A'', only_id)])
                        asked_for_id ''patient 001'')) = 2"
proof -
  let ?e = "scripted_env [Some ''A'', Some ''A''] [(''A'', only_id)]"
  let ?b = "asked_for_id"
  let ?m = "''patient 001''"
  let ?kv = "[(''patient_id'', JStr ''001''), (''format'', JStr [])]"
  let ?q = "''Get raw data for patient 001''"
  let ?b' = "(update_history ?b ''user'' ?m)
                  \<lparr>client_calls := Suc (client_calls ?b),
                   bot_context := (bot_context ?b)
                     \<lparr>partial_patient_id := Some (JStr ''001''),
                      partial_format := Some (JStr ''raw'')\<rparr>,
                   state := INITIAL\<rparr>"
  have h1: "state ?b = NEEDS_CLARIFICATION" by (simp add: asked_for_id_def)
  have h2: "\<not> wants_export ?m" by (simp add: export_simps)
  have h3: "fst (extract_patient_and_format ?e (update_history ?b ''user'' ?m) ?m) = Inr (JObject ?kv)"
    by (simp add: run_simps only_id_def asked_for_id_def)
  have h4: "JStr ''001'' = py_or (dict_get ?kv ''patient_id'') (ctx_get (partial_patient_id (bot_context ?b)))"
    by (simp add: py_or_def dict_get_def)
  have h5: "JStr ''raw'' = py_or (dict_get ?kv ''format'') (ctx_get (partial_format (bot_context ?b)))"
    by (simp add: py_or_def dict_get_def asked_for_id_def empty_context_def ctx_get_def)
  have h6: "truthy (JStr ''001'')" "truthy (JStr ''raw'')" by simp_all
  have h9: "?q = ''Get '' @ py_str (py_repr ?e) (JStr ''raw'') @ '' data for patient ''
                   @ py_str (py_repr ?e) (JStr ''001'')"
    by simp
  have nq: "\<not> wants_export ?q" by (simp add: export_simps)
  have x2: "fst (extract_patient_and_format ?e ?b' ?q) = Inr (JObject ?kv)"
    by (simp add: run_simps only_id_def asked_for_id_def)
  have p2: "JStr ''001'' = py_or (dict_get ?kv ''patient_id'') (ctx_get (partial_patient_id (bot_context ?b')))"
    by (simp add: py_or_def dict_get_def)
  have f2: "JStr ''raw'' = py_or (dict_get ?kv ''format'') (ctx_get (partial_format (bot_context ?b')))"
    by (simp add: py_or_def dict_get_def ctx_get_def)
  have c2: "catalog_lookup (JStr ''001'') (patient_ids ?b') = Some ''001''"
    by (simp add: catalog_lookup_def asked_for_id_def init_bot_def)
  have d2: "get_patient_data ?e ''001'' = Inr (Some 288)"
    by (simp add: scripted_env_def)
  have r: "fst (handle_initial_message ?e ?b' ?q)
             = Inr (''Displaying raw data for patient 001 in your browser.'' @ follow_up_offer)"
          "state (snd (handle_initial_message ?e ?b' ?q)) = DATA_RETRIEVED"
    using initial_found [OF nq x2 p2 f2 h6 c2 d2]
    by (simp_all add: display_raw_data_popup_def scripted_env_def)
  from clarification_reentry_once [OF h1 h2 h3 h4 h5 h6 refl h9, of asked_for_id ?m] r nq
  have "fst (process_message ?e ?b ?m)
          = Inr (''Displaying raw data for patient 001 in your browser.'' @ follow_up_offer)"
       "client_calls (snd (process_message ?e ?b ?m)) = 2"
    by (simp_all add: asked_for_id_def init_bot_def)
  moreover have "state (snd (process_message ?e ?b ?m)) = DATA_RETRIEVED"
    using process_fields(2) [OF h1, of ?e ?m]
          clarification_reentry_once [OF h1 h2 h3 h4 h5 h6 refl h9, of asked_for_id ?m] r
    by simp
  ultimately show ?thesis
    using h1 h2 h3 h6 nq by (simp add: only_id_def)
qed

subsection \<open>Analysis\<close>

lemma analyze_current_delegates:
  assumes "\<not> wants_export m"
      and "fst (analyze_intention e b m) = Inr iv"
      and "py_subscript iv ''intention'' = Inr (JStr ''analyze_current'')"
  shows "handle_data_retrieved e b m =
           handle_analysis e
             (b\<lparr>client_calls := Suc (client_calls b), state := ANALYZING_DATA\<rparr>) m"
  using assms
  by (simp add: handle_data_retrieved_def case_prod_beta)

text \<open>
  Claim C9. The state ANALYZING_DATA is entered and left within one turn: in
  DATA_RETRIEVED, for an utterance that is no export request and that the classifier
  answers with analyze_current, the handler sets the state to ANALYZING_DATA and returns
  what \<^verbatim>\<open>_handle_analysis\<close> returns. There, when the context has no dataset, an
  empty one, or no patient id, the reply is the request to name a patient and the turn
  ends in INITIAL; when it has a non-empty dataset and a patient id, the statistics
  summary of that dataset is computed and sent to the language model together with the
  patient id, the conversation context and the utterance, and if the summary is computed
  and the model answers, the reply is that answer and the turn ends in DATA_RETRIEVED.
  The context is unchanged either way.
\<close>

theorem analysis_turn:
  assumes "state b = DATA_RETRIEVED"
      and "\<not> wants_export m"
      and "fst (analyze_intention e (update_history b ''user'' m) m) = Inr iv"
      and "py_subscript iv ''intention'' = Inr (JStr ''analyze_current'')"
      and "pid = ctx_get (patient_id (bot_context b))"
      and "entered = (update_history b ''user'' m)
                       \<lparr>client_calls := Suc (client_calls b), state := ANALYZING_DATA\<rparr>"
  shows "handle_data_retrieved e (update_history b ''user'' m) m = handle_analysis e entered m \<and>
         state entered = ANALYZING_DATA \<and>
         ((\<forall>d. patient_data (bot_context b) = Some (Some d) \<longrightarrow> df_empty e d) \<or> \<not> truthy pid
          \<longrightarrow>
            fst (process_message e b m)
              = Inr ''I don't have any patient data to analyze. Please specify which patient's data you'd like to see.'' \<and>
            state (snd (process_message e b m)) = INITIAL \<and>
            bot_context (snd (process_message e b m)) = bot_context b \<and>
            client_calls (snd (process_message e b m)) = client_calls b + 1)
         \<and>
         (patient_data (bot_context b) = Some (Some d) \<and> \<not> df_empty e d \<and> truthy pid \<and>
          stats_summary e d = Inr summary \<and>
          chat_completion e (client_calls b + 1) GLUCOSE_DATA_ANALYSIS_PROMPT
            (''Data for patient '' @ py_str (py_repr e) pid @ '':'' @ [NL] @ summary @ [NL]
             @ get_conversation_context (update_history b ''user'' m) @ [NL]
             @ ''Current query: '' @ m) False = Some answer
          \<longrightarrow>
            fst (process_message e b m) = Inr answer \<and>
            state (snd (process_message e b m)) = DATA_RETRIEVED \<and>
            bot_context (snd (process_message e b m)) = bot_context b \<and>
            client_calls (snd (process_message e b m)) = client_calls b + 2)"
proof (intro conjI impI)
  let ?bu = "update_history b ''user'' m"
  have en: "entered = ?bu\<lparr>client_calls := Suc (client_calls ?bu), state := ANALYZING_DATA\<rparr>"
    using assms(6) by simp
  show del: "handle_data_retrieved e ?bu m = handle_analysis e entered m"
    unfolding en by (rule analyze_current_delegates [OF assms(2,3,4)])
  show "state entered = ANALYZING_DATA" using assms(6) by simp
  note pf = process_fields(3) [OF assms(1), of e m]
  {
    assume a: "(\<forall>d. patient_data (bot_context b) = Some (Some d) \<longrightarrow> df_empty e d) \<or> \<not> truthy pid"
    have "handle_analysis e entered m = (Inr no_data_reply, entered\<lparr>state := INITIAL\<rparr>)"
      using a assms(2,5,6)
      by (auto simp: handle_analysis_def Let_def split: option.splits)
    with pf del assms(6)
    show "fst (process_message e b m)
            = Inr ''I don't have any patient data to analyze. Please specify which patient's data you'd like to see.''"
         "state (snd (process_message e b m)) = INITIAL"
         "bot_context (snd (process_message e b m)) = bot_context b"
         "client_calls (snd (process_message e b m)) = client_calls b + 1"
      by (simp_all add: no_data_reply_def)
  }
  {
    assume a: "patient_data (bot_context b) = Some (Some d) \<and> \<not> df_empty e d \<and> truthy pid \<and>
          stats_summary e d = Inr summary \<and>
          chat_completion e (client_calls b + 1) GLUCOSE_DATA_ANALYSIS_PROMPT
            (''Data for patient '' @ py_str (py_repr e) pid @ '':'' @ [NL] @ summary @ [NL]
             @ get_conversation_context (update_history b ''user'' m) @ [NL]
             @ ''Current query: '' @ m) False = Some answer"
    have ctx: "get_conversation_context entered = get_conversation_context ?bu"
      using assms(6) by (simp add: get_conversation_context_def)
    have "handle_analysis e entered m
            = (Inr answer, entered\<lparr>client_calls := Suc (Suc (client_calls b)),
                                   state := DATA_RETRIEVED\<rparr>)"
      using a assms(2,5,6) ctx
      by (simp add: handle_analysis_def Let_def analyze_glucose_data_def
            openai_async_wrapper_text_def)
    with pf del assms(6)
    show "fst (process_message e b m) = Inr answer"
         "state (snd (process_message e b m)) = DATA_RETRIEVED"
         "bot_context (snd (process_message e b m)) = bot_context b"
         "client_calls (snd (process_message e b m)) = client_calls b + 2"
      by simp_all
  }
qed


theorem analysis_turn_witness:
  "state (snd (process_message
                 (scripted_env [Some ''X'', Some ''I'', Some ''Two highs.'']
                    [(''X'', raw_001), (''I'', wants_analysis)])
                 (init_bot [''001'']) ''raw data of 001'')) = DATA_RETRIEVED \<and>
   \<not> wants_export ''any highs?'' \<and>
   fst (analyze_intention
          (scripted_env [Some ''X'', Some ''I'', Some ''Two highs.'']
             [(''X'', raw_001), (''I'', wants_analysis)])
          (update_history
             (snd (process_message
                     (scripted_env [Some ''X'', Some ''I'', Some ''Two highs.'']
                        [(''X'', raw_001), (''I'', wants_analysis)])
                     (init_bot [''001'']) ''raw data of 001''))
             ''user'' ''any highs?'') ''any highs?'') = Inr wants_analysis \<and>
   py_subscript wants_analysis ''intention'' = Inr (JStr ''analyze_current'') \<and>
   patient_data (bot_context (snd (process_message
                 (scripted_env [Some ''X'', Some ''I'', Some ''Two highs.'']
                    [(''X'', raw_001), (''I'', wants_analysis)])
                 (init_bot [''001'']) ''raw data of 001''))) = Some (Some 288) \<and>
   fst (process_message
          (scripted_env [Some ''X'', Some ''I'', Some ''Two highs.'']
             [(''X'', raw_001), (''I'', wants_analysis)])
          (snd (process_message
                  (scripted_env [Some ''X'', Some ''I'', Some ''Two highs.'']
                     [(''X'', raw_001), (''I'', wants_analysis)])
                  (init_bot [''001'']) ''raw data of 001''))
          ''any highs?'') = Inr ''Two highs.'' \<and>
   state (snd (process_message
          (scripted_env [Some ''X'', Some ''I'', Some ''Two highs.'']
             [(''X'', raw_001), (''I'', wants_analysis)])
          (snd (process_message
                  (scripted_env [Some ''X'', Some ''I'', Some ''Two highs.'']
                     [(''X'', raw_001), (''I'', wants_analysis)])
                  (init_bot [''001'']) ''raw data of 001''))
          ''any highs?'')) = DATA_RETRIEVED \<and>
   state (snd (process_message
                 (scripted_env_no_csv [Some ''X'', Some ''I'']
                    [(''X'', raw_001), (''I'', wants_analysis)])
                 (init_bot [''001'']) ''raw data of 001'')) = DATA_RETRIEVED \<and>
   patient_data (bot_context (snd (process_message
                 (scripted_env_no_csv [Some ''X'', Some ''I'']
                    [(''X'', raw_001), (''I'', wants_analysis)])
                 (init_bot [''001'']) ''raw data of 001''))) = Some None \<and>
   fst (process_message
          (scripted_env_no_csv [Some ''X'', Some ''I'']
             [(''X'', raw_001), (''I'', wants_analysis)])
          (snd (process_message
                  (scripted_env_no_csv [Some ''X'', Some ''I'']
                     [(''X'', raw_001), (''I'', wants_analysis)])
                  (init_bot [''001'']) ''raw data of 001''))
          ''any highs?'')
     = Inr ''I don't have any patient data to analyze. Please specify which patient's data you'd like to see.'' \<and>
   state (snd (process_message
          (scripted_env_no_csv [Some ''X'', Some ''I'']
             [(''X'', raw_001), (''I'', wants_analysis)])
          (snd (process_message
                  (scripted_env_no_csv [Some ''X'', Some ''I'']
                     [(''X'', raw_001), (''I'', wants_analysis)])
                  (init_bot [''001'']) ''raw data of 001''))
          ''any highs?'')) = INITIAL"
proof -
  let ?e = "scripted_env [Some ''X'', Some ''I'', Some ''Two highs.'']
              [(''X'', raw_001), (''I'', wants_analysis)]"
  let ?f = "scripted_env_no_csv [Some ''X'', Some ''I'']
              [(''X'', raw_001), (''I'', wants_analysis)]"
  let ?b = "init_bot [''001''] :: nat bot"
  let ?m = "''raw data of 001''"
  let ?q = "''any highs?''"
  let ?kv = "[(''patient_id'', JStr ''001''), (''format'', JStr ''raw'')]"
  let ?bu = "update_history ?b ''user'' ?m"
  let ?be = "snd (process_message ?e ?b ?m)"
  let ?bf = "snd (process_message ?f ?b ?m)"
  have s0: "state ?b = INITIAL" by (simp add: init_bot_def)
  have nm: "\<not> wants_export ?m" by (simp add: export_simps)
  have nq: "\<not> wants_export ?q" by (simp add: export_simps)
  have xe: "fst (extract_patient_and_format ?e ?bu ?m) = Inr (JObject ?kv)"
    by (simp add: run_simps raw_001_def)
  have xf: "fst (extract_patient_and_format ?f ?bu ?m) = Inr (JObject ?kv)"
    by (simp add: run_simps raw_001_def scripted_env_no_csv_def)
  have p: "JStr ''001'' = py_or (dict_get ?kv ''patient_id'') (ctx_get (partial_patient_id (bot_context ?bu)))"
    by (simp add: py_or_def dict_get_def)
  have f: "JStr ''raw'' = py_or (dict_get ?kv ''format'') (ctx_get (partial_format (bot_context ?bu)))"
    by (simp add: py_or_def dict_get_def)
  have t: "truthy (JStr ''001'')" "truthy (JStr ''raw'')" by simp_all
  have c: "catalog_lookup (JStr ''001'') (patient_ids ?bu) = Some ''001''"
    by (simp add: catalog_lookup_def init_bot_def)
  have de: "get_patient_data ?e ''001'' = Inr (Some 288)" by (simp add: scripted_env_def)
  have df: "get_patient_data ?f ''001'' = Inr None"
    by (simp add: scripted_env_def scripted_env_no_csv_def)
  have be: "state ?be = DATA_RETRIEVED" "client_calls ?be = 1"
           "bot_context ?be = empty_context\<lparr>patient_id := Some (JStr ''001''),
                format := Some (JStr ''raw''), patient_data := Some (Some 288)\<rparr>"
    using initial_found [OF nm xe p f t c de] process_fields(1) [OF s0, of ?e ?m]
    by (simp_all add: init_bot_def empty_context_def)
  have bf: "state ?bf = DATA_RETRIEVED" "client_calls ?bf = 1"
           "bot_context ?bf = empty_context\<lparr>patient_id := Some (JStr ''001''),
                format := Some (JStr ''raw''), patient_data := Some None\<rparr>"
    using initial_found [OF nm xf p f t c df] process_fields(1) [OF s0, of ?f ?m]
    by (simp_all add: init_bot_def empty_context_def)
  have ie: "fst (analyze_intention ?e (update_history ?be ''user'' ?q) ?q) = Inr wants_analysis"
    using be(2)
    by (simp add: analyze_intention_def openai_async_wrapper_json_def scripted_env_def Let_def)
  have "fst (analyze_intention ?f (update_history ?bf ''user'' ?q) ?q) = Inr wants_analysis"
    using bf(2)
    by (simp add: analyze_intention_def openai_async_wrapper_json_def scripted_env_def
          scripted_env_no_csv_def Let_def)
  note jf = this
  have sub: "py_subscript wants_analysis ''intention'' = Inr (JStr ''analyze_current'')"
    by (simp add: py_subscript_def wants_analysis_def)
  have pe: "JStr ''001'' = ctx_get (patient_id (bot_context ?be))"
    using be(3) by (simp add: ctx_get_def)
  have pf: "JStr ''001'' = ctx_get (patient_id (bot_context ?bf))"
    using bf(3) by (simp add: ctx_get_def)
  have he: "patient_data (bot_context ?be) = Some (Some 288)" using be(3) by simp
  have hf: "patient_data (bot_context ?bf) = Some None" using bf(3) by simp
  have ee: "\<not> df_empty ?e 288" "stats_summary ?e 288 = Inr ''Number of readings: 288''"
    by (simp_all add: scripted_env_def)
  have ce: "\<And>up. chat_completion ?e (client_calls ?be + 1) GLUCOSE_DATA_ANALYSIS_PROMPT up False
              = Some ''Two highs.''"
    using be(2) by (simp add: scripted_env_def)
  from analysis_turn [OF be(1) nq ie sub pe refl, where d = 288
         and summary = "''Number of readings: 288''" and answer = "''Two highs.''"]
       he ee ce
  have a: "fst (process_message ?e ?be ?q) = Inr ''Two highs.''"
          "state (snd (process_message ?e ?be ?q)) = DATA_RETRIEVED"
    by simp_all
  from analysis_turn [OF bf(1) nq jf sub pf refl, where d = 0 and summary = "[]" and answer = "[]"]
       hf
  have b: "fst (process_message ?f ?bf ?q)
             = Inr ''I don't have any patient data to analyze. Please specify which patient's data you'd like to see.''"
          "state (snd (process_message ?f ?bf ?q)) = INITIAL"
    by simp_all
  from be(1) bf(1) nq ie sub he hf a b show ?thesis by simp
qed

subsection \<open>A new patient after data was shown\<close>

lemma retrieve_new_reenters:
  assumes "\<not> wants_export m"
      and "fst (analyze_intention e b m) = Inr iv"
      and "py_subscript iv ''intention'' = Inr (JStr ''retrieve_new'')"
      and "fst (extract_patient_and_format e
                  (b\<lparr>client_calls := Suc (client_calls b), state := INITIAL,
                     bot_context := empty_context\<rparr>) m) = Inr (JObject kv)"
  shows "handle_data_retrieved e b m =
           handle_initial_message e
             (b\<lparr>client_calls := Suc (Suc (client_calls b)), state := INITIAL,
                bot_context := empty_context
                  \<lparr>partial_patient_id :=
                     (if truthy (dict_get kv ''patient_id'')
                      then Some (dict_get kv ''patient_id'') else None),
                   partial_format :=
                     (if truthy (dict_get kv ''format'')
                      then Some (dict_get kv ''format'') else None)\<rparr>\<rparr>) m"
  using assms
  apply (cases "truthy (dict_get kv ''patient_id'')"; cases "truthy (dict_get kv ''format'')")
     apply (simp_all add: handle_data_retrieved_def Let_def case_prod_beta empty_context_def)
     apply (rule arg_cong [where f = "\<lambda>x. handle_initial_message e x m"], rule bot.equality;
            simp)+
  done

lemma update_history_context:
  "update_history (b\<lparr>bot_context := c\<rparr>) r x = (update_history b r x)\<lparr>bot_context := c\<rparr>"
  by (simp add: update_history_def Let_def)

lemma intention_ignores_context:
  "fst (analyze_intention e (b\<lparr>bot_context := c\<rparr>) m) = fst (analyze_intention e b m)"
  by (simp add: analyze_intention_def openai_async_wrapper_json_def Let_def split: option.splits)

lemma retrieve_new_unfolds:
  assumes "\<not> wants_export m"
      and "fst (analyze_intention e b m) = Inr iv"
      and "py_subscript iv ''intention'' = Inr (JStr ''retrieve_new'')"
      and "wiped = b\<lparr>client_calls := Suc (client_calls b), state := INITIAL,
                       bot_context := empty_context\<rparr>"
  shows "handle_data_retrieved e b m =
           (case extract_patient_and_format e wiped m of
              (Inl err, b2) \<Rightarrow> (Inl err, b2)
            | (Inr query_info, b2) \<Rightarrow>
                (case query_info of
                   JObject kv \<Rightarrow>
                     (let c1 = (if truthy (dict_get kv ''patient_id'')
                                then (bot_context b2)
                                       \<lparr>partial_patient_id := Some (dict_get kv ''patient_id'')\<rparr>
                                else bot_context b2);
                          c2 = (if truthy (dict_get kv ''format'')
                                then c1\<lparr>partial_format := Some (dict_get kv ''format'')\<rparr>
                                else c1)
                      in handle_initial_message e (b2\<lparr>bot_context := c2\<rparr>) m)
                 | _ \<Rightarrow> (Inl AttributeError, b2)))"
proof -
  have w: "snd (analyze_intention e b m)\<lparr>state := INITIAL, bot_context := empty_context\<rparr> = wiped"
    unfolding assms(4) by (rule bot.equality) simp_all
  show ?thesis
    using assms(1,2,3)
    by (simp add: handle_data_retrieved_def case_prod_beta w del: intention_snd extract_snd
          split: sum.splits json.splits)
qed

lemma retrieve_new_forgets:
  assumes "\<not> wants_export m"
      and "fst (analyze_intention e b m) = Inr iv"
      and "py_subscript iv ''intention'' = Inr (JStr ''retrieve_new'')"
  shows "handle_data_retrieved e (b\<lparr>bot_context := c\<rparr>) m = handle_data_retrieved e b m"
proof -
  let ?w = "b\<lparr>client_calls := Suc (client_calls b), state := INITIAL,
              bot_context := empty_context\<rparr>"
  have i: "fst (analyze_intention e (b\<lparr>bot_context := c\<rparr>) m) = Inr iv"
    using assms(2) by (simp add: intention_ignores_context)
  have w: "?w = (b\<lparr>bot_context := c\<rparr>)
                   \<lparr>client_calls := Suc (client_calls (b\<lparr>bot_context := c\<rparr>)), state := INITIAL,
                    bot_context := empty_context\<rparr>"
    by (rule bot.equality) simp_all
  show ?thesis
    by (simp only: retrieve_new_unfolds [OF assms(1) i assms(3) w]
          retrieve_new_unfolds [OF assms refl])
qed


text \<open>
  Claim C7 says that after the answer retrieve_new an utterance naming a new valid
  patient id lands in DATA_RETRIEVED for that patient. The wipe discards the format of
  the old request as well: the bot shows the raw data of patient 001, the user asks for
  patient 002 (in the catalog) without naming a format, the classifier answers
  retrieve_new. The turn ends in NEEDS_CLARIFICATION asking for the format.
\<close>

theorem retrieve_new_needs_format:
  "state viewing_001 = DATA_RETRIEVED \<and>
   fst (analyze_intention
          (scripted_env [None, Some ''I'', Some ''X'', Some ''X'']
             [(''I'', wants_new), (''X'', only_002)])
          (update_history viewing_001 ''user'' ''now patient 002'') ''now patient 002'')
     = Inr wants_new \<and>
   py_subscript wants_new ''intention'' = Inr (JStr ''retrieve_new'') \<and>
   ''002'' \<in> set (patient_ids viewing_001) \<and>
   state (snd (process_message
                 (scripted_env [None, Some ''I'', Some ''X'', Some ''X'']
                    [(''I'', wants_new), (''X'', only_002)])
                 viewing_001 ''now patient 002'')) = NEEDS_CLARIFICATION \<and>
   bot_context (snd (process_message
                 (scripted_env [None, Some ''I'', Some ''X'', Some ''X'']
                    [(''I'', wants_new), (''X'', only_002)])
                 viewing_001 ''now patient 002''))
     = empty_context\<lparr>partial_patient_id := Some (JStr ''002''),
                      missing_info := Some [''format'']\<rparr> \<and>
   fst (process_message
          (scripted_env [None, Some ''I'', Some ''X'', Some ''X'']
             [(''I'', wants_new), (''X'', only_002)])
          viewing_001 ''now patient 002'')
     = Inr (create_clarification_message [''format''])"
proof -
  let ?e = "scripted_env [None, Some ''I'', Some ''X'', Some ''X'']
              [(''I'', wants_new), (''X'', only_002)]"
  let ?b = "viewing_001"
  let ?m = "''now patient 002''"
  let ?bu = "update_history ?b ''user'' ?m"
  let ?kv = "[(''patient_id'', JStr ''002''), (''format'', JStr [])]"
  have s: "state ?b = DATA_RETRIEVED" by (simp add: viewing_001_def)
  have ne: "\<not> wants_export ?m" by (simp add: export_simps)
  have i: "fst (analyze_intention ?e ?bu ?m) = Inr wants_new"
    by (simp add: analyze_intention_def openai_async_wrapper_json_def scripted_env_def
          viewing_001_def init_bot_def Let_def)
  have sub: "py_subscript wants_new ''intention'' = Inr (JStr ''retrieve_new'')"
    by (simp add: py_subscript_def wants_new_def)
  have x2: "fst (extract_patient_and_format ?e
                  (?bu\<lparr>client_calls := Suc (client_calls ?bu), state := INITIAL,
                     bot_context := empty_context\<rparr>) ?m) = Inr (JObject ?kv)"
    by (simp add: extract_patient_and_format_def openai_async_wrapper_json_def scripted_env_def
          viewing_001_def init_bot_def Let_def only_002_def)
  let ?bw = "?bu\<lparr>client_calls := Suc (Suc (client_calls ?bu)), state := INITIAL,
                bot_context := empty_context
                  \<lparr>partial_patient_id :=
                     (if truthy (dict_get ?kv ''patient_id'')
                      then Some (dict_get ?kv ''patient_id'') else None),
                   partial_format :=
                     (if truthy (dict_get ?kv ''format'')
                      then Some (dict_get ?kv ''format'') else None)\<rparr>\<rparr>"
  note re = retrieve_new_reenters [OF ne i sub x2]
  have x3: "fst (extract_patient_and_format ?e ?bw ?m) = Inr (JObject ?kv)"
    by (simp add: extract_patient_and_format_def openai_async_wrapper_json_def scripted_env_def
          viewing_001_def init_bot_def Let_def only_002_def)
  have p3: "JStr ''002'' = py_or (dict_get ?kv ''patient_id'')
                             (ctx_get (partial_patient_id (bot_context ?bw)))"
    by (simp add: py_or_def dict_get_def)
  have f3: "JNull = py_or (dict_get ?kv ''format'') (ctx_get (partial_format (bot_context ?bw)))"
    by (simp add: py_or_def dict_get_def ctx_get_def empty_context_def)
  have d3: "\<not> truthy (JStr ''002'') \<or> \<not> truthy JNull" by simp
  note ia = initial_asks [OF ne x3 p3 f3 d3]
  have st: "state (snd (handle_data_retrieved ?e ?bu ?m)) = NEEDS_CLARIFICATION"
    unfolding re ia by simp
  have cx: "bot_context (snd (handle_data_retrieved ?e ?bu ?m))
              = empty_context\<lparr>partial_patient_id := Some (JStr ''002''),
                               missing_info := Some [''format'']\<rparr>"
    unfolding re ia by (simp add: dict_get_def empty_context_def)
  have rp: "fst (handle_data_retrieved ?e ?bu ?m) = Inr (create_clarification_message [''format''])"
    unfolding re ia by simp
  have cat: "''002'' \<in> set (patient_ids viewing_001)"
    by (simp add: viewing_001_def init_bot_def)
  from process_fields(3) [OF s, of ?e ?m] st cx rp s i sub cat show ?thesis
    by simp
qed

text \<open>
  Claim C7 as amended. In DATA_RETRIEVED, for an utterance that is no export request and
  that the classifier answers with retrieve_new, whatever the utterance names: the result
  of the turn does not depend on the context before the turn, so no trace of the old
  patient is retained; the slots are extracted from the utterance with the context
  emptied; when that extraction raises or returns no object the turn raises and leaves
  the bot in INITIAL with an empty context; when it returns an object, its non-empty slots
  are stored as the only entries of the context (partial values) and the result of the
  turn is that of INITIAL handling on the same utterance. When the slots merged there
  give a patient id of the catalog and also a format, and loading and showing the data
  succeed, the turn ends in DATA_RETRIEVED with a context that holds exactly the new
  patient id, the format and the new dataset, after three completion requests.
\<close>

theorem retrieve_new_replaces_context:
  assumes "state b = DATA_RETRIEVED"
      and "\<not> wants_export m"
      and "fst (analyze_intention e (update_history b ''user'' m) m) = Inr iv"
      and "py_subscript iv ''intention'' = Inr (JStr ''retrieve_new'')"
      and "wiped = (update_history b ''user'' m)
                     \<lparr>client_calls := Suc (client_calls b), state := INITIAL,
                      bot_context := empty_context\<rparr>"
      and "fresh = wiped
                     \<lparr>client_calls := Suc (Suc (client_calls b)),
                      bot_context := empty_context
                        \<lparr>partial_patient_id :=
                           (if truthy (dict_get kv ''patient_id'')
                            then Some (dict_get kv ''patient_id'') else None),
                         partial_format :=
                           (if truthy (dict_get kv ''format'')
                            then Some (dict_get kv ''format'') else None)\<rparr>\<rparr>"
  shows "process_message e (b\<lparr>bot_context := c\<rparr>) m = process_message e b m \<and>
         ((\<forall>kv'. fst (extract_patient_and_format e wiped m) \<noteq> Inr (JObject kv')) \<longrightarrow>
            fst (process_message e b m)
              = Inl (case fst (extract_patient_and_format e wiped m) of
                       Inl err \<Rightarrow> err | Inr v \<Rightarrow> AttributeError) \<and>
            state (snd (process_message e b m)) = INITIAL \<and>
            bot_context (snd (process_message e b m)) = empty_context \<and>
            client_calls (snd (process_message e b m)) = client_calls b + 2) \<and>
         (fst (extract_patient_and_format e wiped m) = Inr (JObject kv) \<longrightarrow>
            handle_data_retrieved e (update_history b ''user'' m) m
              = handle_initial_message e fresh m \<and>
            fst (process_message e b m) = fst (handle_initial_message e fresh m) \<and>
            state (snd (process_message e b m))
              = state (snd (handle_initial_message e fresh m)) \<and>
            bot_context (snd (process_message e b m))
              = bot_context (snd (handle_initial_message e fresh m))) \<and>
         (fst (extract_patient_and_format e wiped m) = Inr (JObject kv) \<and>
          fst (extract_patient_and_format e fresh m) = Inr (JObject kv') \<and>
          JStr p = py_or (dict_get kv' ''patient_id'')
                     (ctx_get (partial_patient_id (bot_context fresh))) \<and>
          fmt = py_or (dict_get kv' ''format'') (ctx_get (partial_format (bot_context fresh))) \<and>
          p \<noteq> [] \<and> p \<in> set (patient_ids b) \<and> truthy fmt \<and>
          get_patient_data e p = Inr data \<and>
          (if fmt = JStr ''figure'' then generate_glucose_plot e data p
           else display_raw_data_popup e data p) = Inr shown \<longrightarrow>
            fst (process_message e b m) = Inr (shown @ follow_up_offer) \<and>
            state (snd (process_message e b m)) = DATA_RETRIEVED \<and>
            bot_context (snd (process_message e b m))
              = empty_context\<lparr>patient_id := Some (JStr p), format := Some fmt,
                               patient_data := Some data\<rparr> \<and>
            client_calls (snd (process_message e b m)) = client_calls b + 3)"
proof -
  let ?bu = "update_history b ''user'' m"
  note pf = process_fields(3) [OF assms(1), of e m]
  have w: "wiped = ?bu\<lparr>client_calls := Suc (client_calls ?bu), state := INITIAL,
                        bot_context := empty_context\<rparr>"
    using assms(5) by simp
  note un = retrieve_new_unfolds [OF assms(2,3,4) w]
  have A: "process_message e (b\<lparr>bot_context := c\<rparr>) m = process_message e b m"
    using assms(1) retrieve_new_forgets [OF assms(2,3,4), of c]
    by (simp add: process_message_def update_history_context)
  have B: "fst (handle_data_retrieved e ?bu m)
             = Inl (case fst (extract_patient_and_format e wiped m) of
                      Inl err \<Rightarrow> err | Inr v \<Rightarrow> AttributeError) \<and>
           state (snd (handle_data_retrieved e ?bu m)) = INITIAL \<and>
           bot_context (snd (handle_data_retrieved e ?bu m)) = empty_context \<and>
           client_calls (snd (handle_data_retrieved e ?bu m)) = client_calls b + 2"
    if "\<forall>kv'. fst (extract_patient_and_format e wiped m) \<noteq> Inr (JObject kv')"
    using that unfolding un
    by (simp add: case_prod_beta assms(5) split: sum.splits json.splits)
  have C: "handle_data_retrieved e ?bu m = handle_initial_message e fresh m"
    if x: "fst (extract_patient_and_format e wiped m) = Inr (JObject kv)"
  proof -
    have x2: "fst (extract_patient_and_format e
                    (?bu\<lparr>client_calls := Suc (client_calls ?bu), state := INITIAL,
                       bot_context := empty_context\<rparr>) m) = Inr (JObject kv)"
      using x assms(5) by simp
    have fr: "?bu\<lparr>client_calls := Suc (Suc (client_calls ?bu)), state := INITIAL,
                  bot_context := empty_context
                    \<lparr>partial_patient_id :=
                       (if truthy (dict_get kv ''patient_id'')
                        then Some (dict_get kv ''patient_id'') else None),
                     partial_format :=
                       (if truthy (dict_get kv ''format'')
                        then Some (dict_get kv ''format'') else None)\<rparr>\<rparr> = fresh"
      unfolding assms(6) assms(5) by (rule bot.equality) simp_all
    show ?thesis
      by (simp only: retrieve_new_reenters [OF assms(2,3,4) x2] fr)
  qed
  have D: "fst (handle_initial_message e fresh m) = Inr (shown @ follow_up_offer) \<and>
           state (snd (handle_initial_message e fresh m)) = DATA_RETRIEVED \<and>
           bot_context (snd (handle_initial_message e fresh m))
             = empty_context\<lparr>patient_id := Some (JStr p), format := Some fmt,
                              patient_data := Some data\<rparr> \<and>
           client_calls (snd (handle_initial_message e fresh m)) = client_calls b + 3"
    if x3: "fst (extract_patient_and_format e fresh m) = Inr (JObject kv')"
      and p3: "JStr p = py_or (dict_get kv' ''patient_id'')
                          (ctx_get (partial_patient_id (bot_context fresh)))"
      and f3: "fmt = py_or (dict_get kv' ''format'')
                       (ctx_get (partial_format (bot_context fresh)))"
      and n: "p \<noteq> []" and cat: "p \<in> set (patient_ids b)" and tf: "truthy fmt"
      and gd: "get_patient_data e p = Inr data"
      and sh: "(if fmt = JStr ''figure'' then generate_glucose_plot e data p
                else display_raw_data_popup e data p) = Inr shown"
  proof -
    have tp: "truthy (JStr p)" using n by simp
    have cl: "catalog_lookup (JStr p) (patient_ids fresh) = Some p"
      using assms(5,6) cat by (simp add: catalog_lookup_def)
    note fd = initial_found [OF assms(2) x3 p3 f3 tp tf cl gd]
    show ?thesis
      unfolding fd using assms(5,6) sh by (simp add: empty_context_def)
  qed
  have P2: "(\<forall>kv'. fst (extract_patient_and_format e wiped m) \<noteq> Inr (JObject kv')) \<longrightarrow>
            fst (process_message e b m)
              = Inl (case fst (extract_patient_and_format e wiped m) of
                       Inl err \<Rightarrow> err | Inr v \<Rightarrow> AttributeError) \<and>
            state (snd (process_message e b m)) = INITIAL \<and>
            bot_context (snd (process_message e b m)) = empty_context \<and>
            client_calls (snd (process_message e b m)) = client_calls b + 2"
    using B pf by simp
  have P3: "fst (extract_patient_and_format e wiped m) = Inr (JObject kv) \<longrightarrow>
            handle_data_retrieved e (update_history b ''user'' m) m
              = handle_initial_message e fresh m \<and>
            fst (process_message e b m) = fst (handle_initial_message e fresh m) \<and>
            state (snd (process_message e b m))
              = state (snd (handle_initial_message e fresh m)) \<and>
            bot_context (snd (process_message e b m))
              = bot_context (snd (handle_initial_message e fresh m))"
    using C pf by simp
  have P4: "fst (extract_patient_and_format e wiped m) = Inr (JObject kv) \<and>
          fst (extract_patient_and_format e fresh m) = Inr (JObject kv') \<and>
          JStr p = py_or (dict_get kv' ''patient_id'')
                     (ctx_get (partial_patient_id (bot_context fresh))) \<and>
          fmt = py_or (dict_get kv' ''format'') (ctx_get (partial_format (bot_context fresh))) \<and>
          p \<noteq> [] \<and> p \<in> set (patient_ids b) \<and> truthy fmt \<and>
          get_patient_data e p = Inr data \<and>
          (if fmt = JStr ''figure'' then generate_glucose_plot e data p
           else display_raw_data_popup e data p) = Inr shown \<longrightarrow>
            fst (process_message e b m) = Inr (shown @ follow_up_offer) \<and>
            state (snd (process_message e b m)) = DATA_RETRIEVED \<and>
            bot_context (snd (process_message e b m))
              = empty_context\<lparr>patient_id := Some (JStr p), format := Some fmt,
                               patient_data := Some data\<rparr> \<and>
            client_calls (snd (process_message e b m)) = client_calls b + 3"
  proof (intro impI, elim conjE)
    assume h: "fst (extract_patient_and_format e wiped m) = Inr (JObject kv)"
      "fst (extract_patient_and_format e fresh m) = Inr (JObject kv')"
      "JStr p = py_or (dict_get kv' ''patient_id'')
                  (ctx_get (partial_patient_id (bot_context fresh)))"
      "fmt = py_or (dict_get kv' ''format'') (ctx_get (partial_format (bot_context fresh)))"
      "p \<noteq> []" "p \<in> set (patient_ids b)" "truthy fmt"
      "get_patient_data e p = Inr data"
      "(if fmt = JStr ''figure'' then generate_glucose_plot e data p
        else display_raw_data_popup e data p) = Inr shown"
    from pf C [OF h(1)] D [OF h(2-9)]
    show "fst (process_message e b m) = Inr (shown @ follow_up_offer) \<and>
            state (snd (process_message e b m)) = DATA_RETRIEVED \<and>
            bot_context (snd (process_message e b m))
              = empty_context\<lparr>patient_id := Some (JStr p), format := Some fmt,
                               patient_data := Some data\<rparr> \<and>
            client_calls (snd (process_message e b m)) = client_calls b + 3"
      by simp
  qed
  from A P2 P3 P4 show ?thesis by (intro conjI)
qed


theorem retrieve_new_replaces_context_witness:
  "state viewing_001 = DATA_RETRIEVED \<and>
   \<not> wants_export ''a figure for patient 002'' \<and>
   fst (analyze_intention
          (scripted_env [None, Some ''I'', Some ''X'', Some ''X'']
             [(''I'', wants_new), (''X'', figure_002)])
          (update_history viewing_001 ''user'' ''a figure for patient 002'')
          ''a figure for patient 002'')
     = Inr wants_new \<and>
   py_subscript wants_new ''intention'' = Inr (JStr ''retrieve_new'') \<and>
   fst (extract_patient_and_format
          (scripted_env [None, Some ''I'', Some ''X'', Some ''X'']
             [(''I'', wants_new), (''X'', figure_002)])
          ((update_history viewing_001 ''user'' ''a figure for patient 002'')
             \<lparr>client_calls := 2, state := INITIAL, bot_context := empty_context\<rparr>)
          ''a figure for patient 002'')
     = Inr figure_002 \<and>
   ''002'' \<in> set (patient_ids viewing_001) \<and>
   truthy (JStr ''figure'') \<and>
   process_message
     (scripted_env [None, Some ''I'', Some ''X'', Some ''X'']
        [(''I'', wants_new), (''X'', figure_002)])
     (viewing_001\<lparr>bot_context := empty_context\<rparr>) ''a figure for patient 002''
     = process_message
         (scripted_env [None, Some ''I'', Some ''X'', Some ''X'']
            [(''I'', wants_new), (''X'', figure_002)])
         viewing_001 ''a figure for patient 002'' \<and>
   handle_data_retrieved
     (scripted_env [None, Some ''I'', Some ''X'', Some ''X'']
        [(''I'', wants_new), (''X'', figure_002)])
     (update_history viewing_001 ''user'' ''a figure for patient 002'')
     ''a figure for patient 002''
     = handle_initial_message
         (scripted_env [None, Some ''I'', Some ''X'', Some ''X'']
            [(''I'', wants_new), (''X'', figure_002)])
         ((update_history viewing_001 ''user'' ''a figure for patient 002'')
            \<lparr>client_calls := 3, state := INITIAL,
             bot_context := empty_context
               \<lparr>partial_patient_id := Some (JStr ''002''),
                partial_format := Some (JStr ''figure'')\<rparr>\<rparr>)
         ''a figure for patient 002'' \<and>
   fst (process_message
          (scripted_env [None, Some ''I'', Some ''X'', Some ''X'']
             [(''I'', wants_new), (''X'', figure_002)])
          viewing_001 ''a figure for patient 002'')
     = Inr (''Generated enhanced plot for patient 002. Opening the plot in your default image viewer and saved as patient_002_glucose.png''
            @ follow_up_offer) \<and>
   state (snd (process_message
                 (scripted_env [None, Some ''I'', Some ''X'', Some ''X'']
                    [(''I'', wants_new), (''X'', figure_002)])
                 viewing_001 ''a figure for patient 002'')) = DATA_RETRIEVED \<and>
   bot_context (snd (process_message
                 (scripted_env [None, Some ''I'', Some ''X'', Some ''X'']
                    [(''I'', wants_new), (''X'', figure_002)])
                 viewing_001 ''a figure for patient 002''))
     = empty_context\<lparr>patient_id := Some (JStr ''002''), format := Some (JStr ''figure''),
                      patient_data := Some (Some 288)\<rparr> \<and>
   client_calls (snd (process_message
                 (scripted_env [None, Some ''I'', Some ''X'', Some ''X'']
                    [(''I'', wants_new), (''X'', figure_002)])
                 viewing_001 ''a figure for patient 002'')) = 4 \<and>
   fst (analyze_intention
          (scripted_env [None, Some ''I''] [(''I'', wants_new)])
          (update_history viewing_001 ''user'' ''now patient 002'') ''now patient 002'')
     = Inr wants_new \<and>
   fst (extract_patient_and_format
          (scripted_env [None, Some ''I''] [(''I'', wants_new)])
          ((update_history viewing_001 ''user'' ''now patient 002'')
             \<lparr>client_calls := 2, state := INITIAL, bot_context := empty_context\<rparr>)
          ''now patient 002'')
     = Inl APIError \<and>
   fst (process_message (scripted_env [None, Some ''I''] [(''I'', wants_new)])
          viewing_001 ''now patient 002'') = Inl APIError \<and>
   state (snd (process_message (scripted_env [None, Some ''I''] [(''I'', wants_new)])
                 viewing_001 ''now patient 002'')) = INITIAL \<and>
   bot_context (snd (process_message (scripted_env [None, Some ''I''] [(''I'', wants_new)])
                       viewing_001 ''now patient 002'')) = empty_context \<and>
   client_calls (snd (process_message (scripted_env [None, Some ''I''] [(''I'', wants_new)])
                        viewing_001 ''now patient 002'')) = 3"
proof -
  let ?e = "scripted_env [None, Some ''I'', Some ''X'', Some ''X'']
              [(''I'', wants_new), (''X'', figure_002)]"
  let ?b = "viewing_001"
  let ?m = "''a figure for patient 002''"
  let ?bu = "update_history ?b ''user'' ?m"
  let ?kv = "[(''patient_id'', JStr ''002''), (''format'', JStr ''figure'')]"
  let ?wiped = "?bu\<lparr>client_calls := Suc (client_calls ?b), state := INITIAL,
                      bot_context := empty_context\<rparr>"
  let ?fresh = "?wiped\<lparr>client_calls := Suc (Suc (client_calls ?b)),
                      bot_context := empty_context
                        \<lparr>partial_patient_id :=
                           (if truthy (dict_get ?kv ''patient_id'')
                            then Some (dict_get ?kv ''patient_id'') else None),
                         partial_format :=
                           (if truthy (dict_get ?kv ''format'')
                            then Some (dict_get ?kv ''format'') else None)\<rparr>\<rparr>"
  have s: "state ?b = DATA_RETRIEVED" by (simp add: viewing_001_def)
  have cc: "client_calls ?b = 1" by (simp add: viewing_001_def)
  have ne: "\<not> wants_export ?m" by (simp add: export_simps)
  have i: "fst (analyze_intention ?e ?bu ?m) = Inr wants_new"
    by (simp add: analyze_intention_def openai_async_wrapper_json_def scripted_env_def
          viewing_001_def init_bot_def Let_def)
  have sub: "py_subscript wants_new ''intention'' = Inr (JStr ''retrieve_new'')"
    by (simp add: py_subscript_def wants_new_def)
  have x2: "fst (extract_patient_and_format ?e ?wiped ?m) = Inr (JObject ?kv)"
    by (simp add: extract_patient_and_format_def openai_async_wrapper_json_def scripted_env_def
          viewing_001_def init_bot_def Let_def figure_002_def)
  have x3: "fst (extract_patient_and_format ?e ?fresh ?m) = Inr (JObject ?kv)"
    by (simp add: extract_patient_and_format_def openai_async_wrapper_json_def scripted_env_def
          viewing_001_def init_bot_def Let_def figure_002_def)
  have p3: "JStr ''002'' = py_or (dict_get ?kv ''patient_id'')
                             (ctx_get (partial_patient_id (bot_context ?fresh)))"
    by (simp add: py_or_def dict_get_def)
  have f3: "JStr ''figure'' = py_or (dict_get ?kv ''format'')
                                (ctx_get (partial_format (bot_context ?fresh)))"
    by (simp add: py_or_def dict_get_def)
  have n: "''002'' \<noteq> []" by simp
  have cat: "''002'' \<in> set (patient_ids ?b)" by (simp add: viewing_001_def init_bot_def)
  have tf: "truthy (JStr ''figure'')" by simp
  have gd: "get_patient_data ?e ''002'' = Inr (Some 288)" by (simp add: scripted_env_def)
  have sh: "(if JStr ''figure'' = JStr ''figure'' then generate_glucose_plot ?e (Some 288) ''002''
            else display_raw_data_popup ?e (Some 288) ''002'')
              = Inr ''Generated enhanced plot for patient 002. Opening the plot in your default image viewer and saved as patient_002_glucose.png''"
    by (simp add: generate_glucose_plot_def scripted_env_def)
  note t1 = retrieve_new_replaces_context [OF s ne i sub refl refl,
      where c = empty_context and kv = ?kv and kv' = ?kv and p = "''002''"
        and fmt = "JStr ''figure''" and data = "Some 288"
        and shown = "''Generated enhanced plot for patient 002. Opening the plot in your default image viewer and saved as patient_002_glucose.png''"]
  have a1: "process_message ?e (?b\<lparr>bot_context := empty_context\<rparr>) ?m = process_message ?e ?b ?m"
    using t1 by (rule conjunct1)
  have r1: "handle_data_retrieved ?e ?bu ?m = handle_initial_message ?e ?fresh ?m"
    using t1 x2 by simp
  have l1: "fst (process_message ?e ?b ?m)
              = Inr (''Generated enhanced plot for patient 002. Opening the plot in your default image viewer and saved as patient_002_glucose.png''
                     @ follow_up_offer) \<and>
            state (snd (process_message ?e ?b ?m)) = DATA_RETRIEVED \<and>
            bot_context (snd (process_message ?e ?b ?m))
              = empty_context\<lparr>patient_id := Some (JStr ''002''),
                               format := Some (JStr ''figure''),
                               patient_data := Some (Some 288)\<rparr> \<and>
            client_calls (snd (process_message ?e ?b ?m)) = client_calls ?b + 3"
    using t1 x2 x3 p3 f3 n cat tf gd sh by blast
  let ?e2 = "scripted_env [None, Some ''I''] [(''I'', wants_new)]"
  let ?m2 = "''now patient 002''"
  let ?bu2 = "update_history ?b ''user'' ?m2"
  let ?wiped2 = "?bu2\<lparr>client_calls := Suc (client_calls ?b), state := INITIAL,
                       bot_context := empty_context\<rparr>"
  have ne2: "\<not> wants_export ?m2" by (simp add: export_simps)
  have i2: "fst (analyze_intention ?e2 ?bu2 ?m2) = Inr wants_new"
    by (simp add: analyze_intention_def openai_async_wrapper_json_def scripted_env_def
          viewing_001_def init_bot_def Let_def)
  have y2: "fst (extract_patient_and_format ?e2 ?wiped2 ?m2) = Inl APIError"
    by (simp add: extract_patient_and_format_def openai_async_wrapper_json_def scripted_env_def
          viewing_001_def init_bot_def Let_def)
  note t2 = retrieve_new_replaces_context [OF s ne2 i2 sub refl refl,
      where c = empty_context and kv = "[]"]
  have l2: "fst (process_message ?e2 ?b ?m2) = Inl APIError \<and>
            state (snd (process_message ?e2 ?b ?m2)) = INITIAL \<and>
            bot_context (snd (process_message ?e2 ?b ?m2)) = empty_context \<and>
            client_calls (snd (process_message ?e2 ?b ?m2)) = client_calls ?b + 2"
    using t2 y2 by simp
  have fr: "?fresh = ?bu\<lparr>client_calls := 3, state := INITIAL,
             bot_context := empty_context
               \<lparr>partial_patient_id := Some (JStr ''002''),
                partial_format := Some (JStr ''figure'')\<rparr>\<rparr>"
    by (rule bot.equality) (simp_all add: cc dict_get_def)
  have w1: "?wiped = ?bu\<lparr>client_calls := 2, state := INITIAL, bot_context := empty_context\<rparr>"
    by (rule bot.equality) (simp_all add: cc)
  have w2: "?wiped2 = ?bu2\<lparr>client_calls := 2, state := INITIAL, bot_context := empty_context\<rparr>"
    by (rule bot.equality) (simp_all add: cc)
  have x2': "fst (extract_patient_and_format ?e
                   (?bu\<lparr>client_calls := 2, state := INITIAL, bot_context := empty_context\<rparr>) ?m)
               = Inr figure_002"
    using x2 unfolding w1 by (simp add: figure_002_def)
  have y2': "fst (extract_patient_and_format ?e2
                   (?bu2\<lparr>client_calls := 2, state := INITIAL, bot_context := empty_context\<rparr>) ?m2)
               = Inl APIError"
    using y2 unfolding w2 .
  have r1': "handle_data_retrieved ?e ?bu ?m
               = handle_initial_message ?e
                   (?bu\<lparr>client_calls := 3, state := INITIAL,
                      bot_context := empty_context
                        \<lparr>partial_patient_id := Some (JStr ''002''),
                         partial_format := Some (JStr ''figure'')\<rparr>\<rparr>) ?m"
    using r1 unfolding fr .
  from s ne i sub x2' cat tf a1 r1' l1 i2 y2' l2 cc
  show ?thesis by simp
qed

subsection \<open>Merging slots\<close>







lemma merge_newest:
  "(if truthy (py_or q (ctx_get s)) then Some (py_or q (ctx_get s)) else s) = newest_non_empty s q"
  by (cases s) (auto simp: newest_non_empty_def py_or_def ctx_get_def)


lemma merge_truthy:
  "truthy (py_or q (ctx_get s)) \<Longrightarrow> newest_non_empty s q = Some (py_or q (ctx_get s))"
  using merge_newest [of q s] by simp










end
